theory Spec2Isabelle
  imports Complex_Main
begin

section \<open>Python values shared by both scripts\<close>

text \<open>
  The notebook writes two Python scripts, \<^verbatim>\<open>training.py\<close> and
  \<^verbatim>\<open>inference_handler.py\<close>. A text is a list of characters with code points below
  256; three characters the scripts depend on and that have no literal are named here.
\<close>

definition newline :: char where
  "newline = CHR 0x0A"

definition backslash :: char where
  "backslash = CHR 0x5C"

definition quote :: char where
  "quote = CHR 0x27"

text \<open>
  Exceptions are values: \<open>Exc c m\<close> is an exception of class \<open>c\<close> whose \<^verbatim>\<open>str\<close> is
  \<open>m\<close>, \<open>SystemExit n\<close> is what \<^verbatim>\<open>sys.exit(n)\<close> raises. \<^verbatim>\<open>except Exception\<close>
  catches every class below except \<open>KeyboardInterrupt\<close>, and does not catch
  \<open>SystemExit\<close>. \<open>PyException\<close> is the plain \<^verbatim>\<open>Exception\<close> class the scripts raise
  themselves, \<open>LibraryError\<close> stands for any other exception class of a library.
\<close>

datatype exc_class =
  PyException | ValueError | NameError | TypeError | FileNotFoundError | LibraryError
  | KeyboardInterrupt

datatype exc = Exc exc_class string | SystemExit nat

definition is_Exception :: "exc_class \<Rightarrow> bool" where
  "is_Exception c = (c \<noteq> KeyboardInterrupt)"

text \<open>
  What the interpreter does with the result of a script: a normal end is status 0,
  \<^verbatim>\<open>sys.exit(n)\<close> is status \<open>n\<close>, any other uncaught exception is status 1.
\<close>

fun exit_status :: "exc + 'a \<Rightarrow> nat" where
  "exit_status (Inr v) = 0"
| "exit_status (Inl (SystemExit n)) = n"
| "exit_status (Inl (Exc c m)) = 1"

text \<open>\<^verbatim>\<open>os.path.join\<close> on two components (POSIX).\<close>

definition path_join :: "string \<Rightarrow> string \<Rightarrow> string" where
  "path_join a b =
     (if b \<noteq> [] \<and> hd b = CHR ''/'' then b
      else if a = [] \<or> last a = CHR ''/'' then a @ b
      else a @ ''/'' @ b)"

section \<open>Regular expressions of the hyperparameter coercion\<close>

text \<open>
  \<^verbatim>\<open>re.compile(p).match(value)\<close> for the constructs the two patterns use. A cursor is the
  position reached and the text still to read; \<open>run r c\<close> lists every cursor at which a
  match of \<open>r\<close> started at \<open>c\<close> can end, so \<^verbatim>\<open>match(value) is not None\<close> is
  \<open>run r (0, value) \<noteq> []\<close>. Without the MULTILINE flag \<^verbatim>\<open>^\<close> matches at position 0 only
  and \<^verbatim>\<open>$\<close> matches at the end of the text and also just before a newline that ends the
  text. \<^verbatim>\<open>\d\<close> is modelled on code points below 256, where the decimal digits are 0 to 9.
\<close>

definition is_digit :: "char \<Rightarrow> bool" where
  "is_digit c = (c \<in> set ''0123456789'')"

datatype regex = Bol | Eol | Dig | Lit char | Seq regex regex | Plus regex

type_synonym cursor = "nat \<times> string"

primrec plus_iter :: "nat \<Rightarrow> (cursor \<Rightarrow> cursor list) \<Rightarrow> cursor list \<Rightarrow> cursor list" where
  "plus_iter 0 f cs = cs"
| "plus_iter (Suc n) f cs = cs @ plus_iter n f (concat (map f cs))"

primrec run :: "regex \<Rightarrow> cursor \<Rightarrow> cursor list" where
  "run Bol = (\<lambda>(i, s). if i = 0 then [(i, s)] else [])"
| "run Eol = (\<lambda>(i, s). if s = [] \<or> s = [newline] then [(i, s)] else [])"
| "run Dig = (\<lambda>(i, s). case s of [] \<Rightarrow> [] | c # cs \<Rightarrow> if is_digit c then [(Suc i, cs)] else [])"
| "run (Lit a) = (\<lambda>(i, s). case s of [] \<Rightarrow> [] | c # cs \<Rightarrow> if c = a then [(Suc i, cs)] else [])"
| "run (Seq r1 r2) = (\<lambda>c. concat (map (run r2) (run r1 c)))"
| "run (Plus r) = (\<lambda>c. plus_iter (length (snd c)) (run r) (run r c))"

definition re_match :: "regex \<Rightarrow> string \<Rightarrow> bool" where
  "re_match r s = (run r (0, s) \<noteq> [])"

text \<open>\<^verbatim>\<open>is_float = re.compile(r'^\d+(?:\.\d+)$')\<close> and \<^verbatim>\<open>is_integer = re.compile(r'^\d+$')\<close>.\<close>

definition is_float :: regex where
  "is_float = Seq Bol (Seq (Plus Dig) (Seq (Seq (Lit (CHR ''.'')) (Plus Dig)) Eol))"

definition is_integer :: regex where
  "is_integer = Seq Bol (Seq (Plus Dig) Eol)"

section \<open>The builtins \<^verbatim>\<open>int\<close> and \<^verbatim>\<open>float\<close> on texts\<close>

text \<open>
  Both builtins strip surrounding whitespace before they read the number. They are modelled on
  the spellings that can reach them behind the two patterns: decimal digits for \<^verbatim>\<open>int\<close>,
  digits, a dot and digits for \<^verbatim>\<open>float\<close>. Any other text is reported as the
  \<open>ValueError\<close> Python raises for a malformed number; the spellings Python accepts beyond
  these (a sign, underscores, an exponent, \<^verbatim>\<open>inf\<close>, \<^verbatim>\<open>nan\<close>) are not modelled.
  \<^verbatim>\<open>float\<close> rounds the decimal value to a binary64 number; the rounding is the parameter
  \<open>rnd\<close>, applied to the exact rational value of the text.
\<close>

definition py_space :: "char \<Rightarrow> bool" where
  "py_space c = (c \<in> set [CHR 0x09, CHR 0x0A, CHR 0x0B, CHR 0x0C, CHR 0x0D, CHR 0x1C, CHR 0x1D,
                           CHR 0x1E, CHR 0x1F, CHR 0x20, CHR 0x85, CHR 0xA0])"

definition py_strip :: "string \<Rightarrow> string" where
  "py_strip s = rev (dropWhile py_space (rev (dropWhile py_space s)))"

definition digit_value :: "char \<Rightarrow> nat" where
  "digit_value c = of_char c - 48"

definition digits_value :: "string \<Rightarrow> nat" where
  "digits_value s = foldl (\<lambda>n c. 10 * n + digit_value c) 0 s"

definition decimal_value :: "string \<Rightarrow> string \<Rightarrow> rat" where
  "decimal_value a b = of_nat (digits_value a) + of_nat (digits_value b) / 10 ^ length b"

definition py_int :: "string \<Rightarrow> exc + int" where
  "py_int s =
     (let t = py_strip s
      in if t \<noteq> [] \<and> list_all is_digit t then Inr (int (digits_value t))
         else Inl (Exc ValueError ''invalid literal for int() with base 10''))"

definition py_float :: "(rat \<Rightarrow> 'f) \<Rightarrow> string \<Rightarrow> exc + 'f" where
  "py_float rnd s =
     (let t = py_strip s; a = takeWhile is_digit t
      in case dropWhile is_digit t of
           [] \<Rightarrow> Inl (Exc ValueError ''could not convert string to float'')
         | c # b \<Rightarrow>
             if a \<noteq> [] \<and> c = CHR ''.'' \<and> b \<noteq> [] \<and> list_all is_digit b
             then Inr (rnd (decimal_value a b))
             else Inl (Exc ValueError ''could not convert string to float''))"

section \<open>training.py\<close>

subsection \<open>Module level\<close>

text \<open>
  The names bound at module level of \<^verbatim>\<open>training.py\<close>: its six imports, its five path
  constants and \<^verbatim>\<open>start\<close>. A name used in a function body is looked up here and then
  among the builtins; a name found in neither raises \<open>NameError\<close>.
\<close>

definition training_globals :: "string list" where
  "training_globals =
     [''os'', ''pd'', ''re'', ''joblib'', ''json'', ''RandomForestClassifier'',
      ''prefix'', ''input_path'', ''output_path'', ''model_path'', ''param_path'', ''start'']"

definition py_builtins :: "string list" where
  "py_builtins = [''print'', ''open'', ''len'', ''str'', ''int'', ''float'', ''ValueError'', ''Exception'']"

definition global_name :: "string \<Rightarrow> exc + unit" where
  "global_name n =
     (if n \<in> set training_globals \<or> n \<in> set py_builtins then Inr ()
      else Inl (Exc NameError (''name '' @ [quote] @ n @ [quote] @ '' is not defined'')))"

definition prefix :: string where
  "prefix = ''/opt/ml''"

definition input_path :: string where
  "input_path = path_join prefix ''input/data''"

definition output_path :: string where
  "output_path = path_join prefix ''output''"

definition model_path :: string where
  "model_path = path_join prefix ''model''"

definition param_path :: string where
  "param_path = path_join prefix ''input/config/hyperparameters.json''"

subsection \<open>The filesystem and the output streams\<close>

text \<open>
  A file holds text or an object serialised by \<^verbatim>\<open>joblib.dump\<close>; \<^verbatim>\<open>joblib.load\<close> gives
  that object back. \<open>listing\<close> is \<^verbatim>\<open>os.listdir\<close>: the entry names of each directory that
  exists. \<open>fits\<close> counts the calls of the estimator's \<^verbatim>\<open>fit\<close>.
\<close>

datatype 'm content = Text string | Pickle 'm

record 'm world =
  files :: "string \<rightharpoonup> 'm content"
  listing :: "string \<rightharpoonup> string list"
  stdout :: "string list"
  stderr :: "string list"
  fits :: nat

definition print :: "string \<Rightarrow> 'm world \<Rightarrow> 'm world" where
  "print s w = w\<lparr>stdout := stdout w @ [s]\<rparr>"

definition print_err :: "string \<Rightarrow> 'm world \<Rightarrow> 'm world" where
  "print_err s w = w\<lparr>stderr := stderr w @ [s]\<rparr>"

definition read_text :: "'m world \<Rightarrow> string \<Rightarrow> exc + string" where
  "read_text w p =
     (case files w p of
        None \<Rightarrow> Inl (Exc FileNotFoundError p)
      | Some (Text s) \<Rightarrow> Inr s
      | Some (Pickle m) \<Rightarrow> Inl (Exc LibraryError ''not a text file''))"

definition listdir :: "'m world \<Rightarrow> string \<Rightarrow> exc + string list" where
  "listdir w d = (case listing w d of None \<Rightarrow> Inl (Exc FileNotFoundError d) | Some names \<Rightarrow> Inr names)"

text \<open>
  Opening \<open>name\<close> in directory \<open>d\<close> for writing and writing \<open>c\<close>: the directory has to
  exist, the file is created or replaced.
\<close>

definition write_file :: "'m world \<Rightarrow> string \<Rightarrow> string \<Rightarrow> 'm content \<Rightarrow> exc + 'm world" where
  "write_file w d name c =
     (case listing w d of
        None \<Rightarrow> Inl (Exc FileNotFoundError (path_join d name))
      | Some names \<Rightarrow>
          Inr (w\<lparr>files := (files w)(path_join d name \<mapsto> c),
                 listing := (listing w)(d \<mapsto> (if name \<in> set names then names else names @ [name]))\<rparr>))"

subsection \<open>The libraries training calls\<close>

text \<open>
  The functions of \<^verbatim>\<open>json\<close>, \<^verbatim>\<open>pandas\<close>, \<^verbatim>\<open>sklearn\<close> and \<^verbatim>\<open>traceback\<close> that
  \<^verbatim>\<open>start\<close> calls are parameters; each may raise. \<open>'d\<close> is a pandas table, \<open>'m\<close> a
  fitted classifier, \<open>'f\<close> a binary64 number. \<open>json_load\<close> gives the items of the parsed
  object; the platform writes every hyperparameter value as a text. \<open>read_csv\<close> is given
  the path of a file. \<open>set_params\<close> and \<open>fit\<close> are those of a new
  \<^verbatim>\<open>RandomForestClassifier\<close>, \<open>first_column\<close> and \<open>other_columns\<close> are
  \<^verbatim>\<open>iloc[:,0]\<close> and \<^verbatim>\<open>iloc[:,1:]\<close>.
\<close>

datatype 'f hval = HFloat 'f | HInt int | HStr string

record ('m, 'd, 'f) lib =
  json_load :: "string \<Rightarrow> exc + (string \<times> string) list"
  to_float :: "rat \<Rightarrow> 'f"
  read_csv :: "string \<Rightarrow> exc + 'd"
  pd_concat :: "'d list \<Rightarrow> exc + 'd"
  first_column :: "'d \<Rightarrow> exc + 'd"
  other_columns :: "'d \<Rightarrow> exc + 'd"
  set_params :: "(string \<rightharpoonup> 'f hval) \<Rightarrow> exc + unit"
  fit :: "(string \<rightharpoonup> 'f hval) \<Rightarrow> 'd \<Rightarrow> 'd \<Rightarrow> exc + 'm"
  score :: "'m \<Rightarrow> 'd \<Rightarrow> 'd \<Rightarrow> exc + 'f"
  str_float :: "'f \<Rightarrow> string"
  format_exc :: "exc \<Rightarrow> string"

subsection \<open>Hyperparameter coercion\<close>

text \<open>
  The body of the loop over the items: \<^verbatim>\<open>float(value)\<close> if \<^verbatim>\<open>is_float\<close> matches,
  else \<^verbatim>\<open>int(value)\<close> if \<^verbatim>\<open>is_integer\<close> matches, else the value as it is.
\<close>

definition coerce :: "(rat \<Rightarrow> 'f) \<Rightarrow> string \<Rightarrow> exc + 'f hval" where
  "coerce rnd v =
     (if re_match is_float v then
        (case py_float rnd v of Inl e \<Rightarrow> Inl e | Inr x \<Rightarrow> Inr (HFloat x))
      else if re_match is_integer v then
        (case py_int v of Inl e \<Rightarrow> Inl e | Inr n \<Rightarrow> Inr (HInt n))
      else Inr (HStr v))"

fun coerce_items ::
  "(rat \<Rightarrow> 'f) \<Rightarrow> (string \<times> string) list \<Rightarrow> (string \<rightharpoonup> 'f hval) \<Rightarrow> exc + (string \<rightharpoonup> 'f hval)" where
  "coerce_items rnd [] h = Inr h"
| "coerce_items rnd ((k, v) # kvs) h =
     (case coerce rnd v of Inl e \<Rightarrow> Inl e | Inr x \<Rightarrow> coerce_items rnd kvs (h(k \<mapsto> x)))"

definition read_hyperparameters :: "('m, 'd, 'f) lib \<Rightarrow> 'm world \<Rightarrow> exc + (string \<rightharpoonup> 'f hval)" where
  "read_hyperparameters L w =
     (case read_text w param_path of
        Inl e \<Rightarrow> Inl e
      | Inr tc \<Rightarrow>
          (case json_load L tc of
             Inl e \<Rightarrow> Inl e
           | Inr items \<Rightarrow> coerce_items (to_float L) items Map.empty))"

text \<open>The two readings of a text the coercion is specified by, and the text without one final newline.\<close>

definition whole_number_text :: "string \<Rightarrow> bool" where
  "whole_number_text s = (s \<noteq> [] \<and> list_all is_digit s)"

definition decimal_number_text :: "string \<Rightarrow> bool" where
  "decimal_number_text s =
     (case dropWhile is_digit s of
        [] \<Rightarrow> False
      | c # b \<Rightarrow> takeWhile is_digit s \<noteq> [] \<and> c = CHR ''.'' \<and> whole_number_text b)"

definition decimal_text_value :: "string \<Rightarrow> rat" where
  "decimal_text_value s = decimal_value (takeWhile is_digit s) (tl (dropWhile is_digit s))"

definition chomp :: "string \<Rightarrow> string" where
  "chomp s = (if s \<noteq> [] \<and> last s = newline then butlast s else s)"

text \<open>
  The coercion in the specification's words: a floating-point value for a text that is digits, a
  dot and digits; else an integer for a text that is digits only; else the text.
\<close>

definition spec_coerce :: "(rat \<Rightarrow> 'f) \<Rightarrow> string \<Rightarrow> 'f hval" where
  "spec_coerce rnd v =
     (if decimal_number_text v then HFloat (rnd (decimal_text_value v))
      else if whole_number_text v then HInt (int (digits_value v))
      else HStr v)"

text \<open>The same reading applied to the text without one final newline.\<close>

definition chomp_coerce :: "(rat \<Rightarrow> 'f) \<Rightarrow> string \<Rightarrow> 'f hval" where
  "chomp_coerce rnd v =
     (if decimal_number_text (chomp v) then HFloat (rnd (decimal_text_value (chomp v)))
      else if whole_number_text (chomp v) then HInt (int (digits_value (chomp v)))
      else HStr v)"

subsection \<open>The training routine\<close>

text \<open>
  The message of the empty-channel check. The format string has four fields, filled in order
  with \<^verbatim>\<open>training_path, 'train', validation_path, 'validation'\<close>; the script writes
  \<^verbatim>\<open>'\\n'\<close>, a backslash and the letter n, where the lines of the message end.
\<close>

definition no_files_message :: "string \<Rightarrow> string \<Rightarrow> string \<Rightarrow> string \<Rightarrow> string" where
  "no_files_message a b c d =
     ''There are no files in '' @ a @ '' or '' @ b @ ''.'' @ [backslash, CHR ''n''] @
     ''This usually indicates that the channel ('' @ c @ '' or '' @ d @
     '') was incorrectly specified,'' @ [backslash, CHR ''n''] @
     ''the data specification in S3 was incorrectly specified or the role specified'' @
     [backslash, CHR ''n''] @
     ''does not have permission to access the data.''"

text \<open>\<^verbatim>\<open>[ pd.read_csv(file, sep=',', header=None) for file in files ]\<close>: the first failure ends the list.\<close>

fun read_frames :: "('m, 'd, 'f) lib \<Rightarrow> string list \<Rightarrow> exc + 'd list" where
  "read_frames L [] = Inr []"
| "read_frames L (file # rest) =
     (case read_csv L file of
        Inl e \<Rightarrow> Inl e
      | Inr d \<Rightarrow> (case read_frames L rest of Inl e \<Rightarrow> Inl e | Inr ds \<Rightarrow> Inr (d # ds)))"

text \<open>
  From \<^verbatim>\<open>print("Training the classifier")\<close> to \<^verbatim>\<open>joblib.dump\<close>: the classifier is
  given the coerced hyperparameters and \<^verbatim>\<open>verbose = 1\<close>, fitted on the training table,
  scored on the validation table and written to \<^verbatim>\<open>iris_model.pkl\<close> in the model directory.
\<close>

definition fit_and_save ::
  "('m, 'd, 'f) lib \<Rightarrow> (string \<rightharpoonup> 'f hval) \<Rightarrow> 'd \<Rightarrow> 'd \<Rightarrow> 'd \<Rightarrow> 'd \<Rightarrow> 'm world
     \<Rightarrow> (exc + unit) \<times> 'm world" where
  "fit_and_save L hyperparameters X_train Y_train X_validation Y_validation w =
     (let w1 = print ''Training the classifier'' w;
          h = hyperparameters(''verbose'' \<mapsto> HInt 1)
      in case set_params L h of
           Inl e \<Rightarrow> (Inl e, w1)
         | Inr u \<Rightarrow>
             (let w2 = w1\<lparr>fits := Suc (fits w1)\<rparr>
              in case fit L h X_train Y_train of
                   Inl e \<Rightarrow> (Inl e, w2)
                 | Inr model \<Rightarrow>
                     (case score L model X_validation Y_validation of
                        Inl e \<Rightarrow> (Inl e, w2)
                      | Inr sc \<Rightarrow>
                          (let w3 = print (''Score: '' @ str_float L sc) w2
                           in case write_file w3 model_path ''iris_model.pkl'' (Pickle model) of
                                Inl e \<Rightarrow> (Inl e, w3)
                              | Inr w4 \<Rightarrow> (Inr (), w4)))))"

text \<open>
  Sequencing of statements that may raise: \<open>bind m f\<close> runs \<open>f\<close> on the value of
  \<open>m\<close>, or propagates the exception \<open>m\<close> raised.
\<close>

definition bind :: "exc + 'a \<Rightarrow> ('a \<Rightarrow> exc + 'b) \<Rightarrow> exc + 'b" where
  "bind m f = (case m of Inl e \<Rightarrow> Inl e | Inr x \<Rightarrow> f x)"

text \<open>
  The body of the \<^verbatim>\<open>try\<close> block of \<^verbatim>\<open>start\<close>, in the order of the source. Up to
  the column selections nothing is written or printed: \<open>load_inputs\<close> gives the coerced
  hyperparameters and \<^verbatim>\<open>X_train, Y_train, X_validation, Y_validation\<close>.
\<close>

definition check_channels :: "string \<Rightarrow> string list \<Rightarrow> string \<Rightarrow> string list \<Rightarrow> exc + unit" where
  "check_channels training_path train_files validation_path validation_files =
     (if length train_files = 0 \<or> length validation_files = 0 then
        Inl (Exc ValueError
               (no_files_message training_path ''train'' validation_path ''validation''))
      else Inr ())"

definition load_inputs ::
  "('m, 'd, 'f) lib \<Rightarrow> 'm world \<Rightarrow> exc + ((string \<rightharpoonup> 'f hval) \<times> 'd \<times> 'd \<times> 'd \<times> 'd)" where
  "load_inputs L w =
     (let training_path = path_join input_path ''train'';
          validation_path = path_join input_path ''validation''
      in bind (read_hyperparameters L w) (\<lambda>hyperparameters.
         bind (listdir w training_path) (\<lambda>train_names.
         bind (listdir w validation_path) (\<lambda>validation_names.
         let train_files = map (path_join training_path) train_names;
             validation_files = map (path_join validation_path) validation_names
         in bind (check_channels training_path train_files validation_path validation_files) (\<lambda>u.
            bind (read_frames L train_files) (\<lambda>raw_train.
            bind (pd_concat L raw_train) (\<lambda>train_data.
            bind (read_frames L validation_files) (\<lambda>raw_validation.
            bind (pd_concat L raw_validation) (\<lambda>validation_data.
            bind (first_column L train_data) (\<lambda>Y_train.
            bind (other_columns L train_data) (\<lambda>X_train.
            bind (first_column L validation_data) (\<lambda>Y_validation.
            bind (other_columns L validation_data) (\<lambda>X_validation.
            Inr (hyperparameters, X_train, Y_train, X_validation, Y_validation))))))))))))))"

definition train_body :: "('m, 'd, 'f) lib \<Rightarrow> 'm world \<Rightarrow> (exc + unit) \<times> 'm world" where
  "train_body L w =
     (case load_inputs L w of
        Inl e \<Rightarrow> (Inl e, w)
      | Inr (hyperparameters, X_train, Y_train, X_validation, Y_validation) \<Rightarrow>
          fit_and_save L hyperparameters X_train Y_train X_validation Y_validation w)"

text \<open>
  The \<^verbatim>\<open>except Exception as e\<close> block. Its first statement calls
  \<^verbatim>\<open>traceback.format_exc()\<close> and its \<^verbatim>\<open>print\<close> names \<^verbatim>\<open>sys.stderr\<close> and is
  followed by \<^verbatim>\<open>sys.exit(255)\<close>; each name is looked up in the module when the statement
  runs.
\<close>

definition failure_text :: "('m, 'd, 'f) lib \<Rightarrow> exc_class \<Rightarrow> string \<Rightarrow> string" where
  "failure_text L c m =
     ''Exception during training: '' @ m @ [backslash, CHR ''n''] @ format_exc L (Exc c m)"

definition report_failure ::
  "('m, 'd, 'f) lib \<Rightarrow> exc_class \<Rightarrow> string \<Rightarrow> 'm world \<Rightarrow> (exc + unit) \<times> 'm world" where
  "report_failure L c m w =
     (case global_name ''traceback'' of
        Inl ne \<Rightarrow> (Inl ne, w)
      | Inr u \<Rightarrow>
          (case write_file w output_path ''failure'' (Text (failure_text L c m)) of
             Inl oe \<Rightarrow> (Inl oe, w)
           | Inr w1 \<Rightarrow>
               (case global_name ''sys'' of
                  Inl ne \<Rightarrow> (Inl ne, w1)
                | Inr u \<Rightarrow> (Inl (SystemExit 255), print_err (failure_text L c m) w1))))"

definition start :: "('m, 'd, 'f) lib \<Rightarrow> 'm world \<Rightarrow> (exc + unit) \<times> 'm world" where
  "start L w =
     (case train_body L (print ''Training mode'' w) of
        (Inr u, w1) \<Rightarrow> (Inr (), w1)
      | (Inl (Exc c m), w1) \<Rightarrow>
          if is_Exception c then report_failure L c m w1 else (Inl (Exc c m), w1)
      | (Inl (SystemExit n), w1) \<Rightarrow> (Inl (SystemExit n), w1))"

section \<open>inference_handler.py\<close>

subsection \<open>The inference handler\<close>

text \<open>
  A numpy array is its shape and its elements in row-major order; \<^verbatim>\<open>reshape(1,-1)\<close>
  keeps the elements and makes them one row.
\<close>

record 'a ndarray =
  shape :: "nat list"
  elems :: "'a list"

definition reshape_one_row :: "'a ndarray \<Rightarrow> 'a ndarray" where
  "reshape_one_row a = \<lparr>shape = [1, length (elems a)], elems = elems a\<rparr>"

text \<open>
  The inference toolkit's \<^verbatim>\<open>decoder.decode\<close> and \<^verbatim>\<open>encoder.encode\<close> are parameters:
  \<open>'a\<close> is a feature value, \<open>'l\<close> a label.
\<close>

record ('a, 'l) toolkit =
  decode :: "string \<Rightarrow> string \<Rightarrow> exc + 'a ndarray"
  encode :: "'l list \<Rightarrow> string \<Rightarrow> exc + string"

text \<open>\<^verbatim>\<open>default_model_fn\<close>: \<^verbatim>\<open>joblib.load(open(os.path.join(model_dir, 'iris_model.pkl'), 'rb'))\<close>.\<close>

definition default_model_fn :: "'m world \<Rightarrow> string \<Rightarrow> exc + 'm" where
  "default_model_fn w model_dir =
     (let model_filename = path_join model_dir ''iris_model.pkl''
      in case files w model_filename of
           None \<Rightarrow> Inl (Exc FileNotFoundError model_filename)
         | Some (Pickle m) \<Rightarrow> Inr m
         | Some (Text s) \<Rightarrow> Inl (Exc LibraryError ''not a serialised object''))"

definition default_input_fn :: "('a, 'l) toolkit \<Rightarrow> string \<Rightarrow> string \<Rightarrow> exc + 'a ndarray" where
  "default_input_fn T input_data content_type =
     (if content_type \<noteq> ''text/csv'' then
        Inl (Exc PyException (''Invalid content-type: '' @ content_type))
      else case decode T input_data content_type of
             Inl e \<Rightarrow> Inl e
           | Inr a \<Rightarrow> Inr (reshape_one_row a))"

definition default_output_fn :: "('a, 'l) toolkit \<Rightarrow> 'l list \<Rightarrow> string \<Rightarrow> exc + string" where
  "default_output_fn T prediction accept =
     (if accept \<noteq> ''text/csv'' then Inl (Exc PyException (''Invalid accept: '' @ accept))
      else encode T prediction accept)"

text \<open>
  Modelled from the spec: the estimator's \<^verbatim>\<open>predict\<close>, which is not part of the
  repository. The specification has it applied to the single-row input and returning the
  numeric result that \<^verbatim>\<open>tolist\<close> turns into a plain sequence: a fitted model \<open>m\<close>
  labels one sample, \<open>classify m row\<close>, and \<open>predict\<close> labels each row of a two-dimensional
  array in turn; an array of another shape is refused.
\<close>

fun rows_of :: "nat \<Rightarrow> nat \<Rightarrow> 'a list \<Rightarrow> 'a list list" where
  "rows_of 0 k xs = []"
| "rows_of (Suc n) k xs = take k xs # rows_of n k (drop k xs)"

fun classify_rows :: "('a list \<Rightarrow> exc + 'l) \<Rightarrow> 'a list list \<Rightarrow> exc + 'l list" where
  "classify_rows f [] = Inr []"
| "classify_rows f (r # rs) =
     (case f r of
        Inl e \<Rightarrow> Inl e
      | Inr l \<Rightarrow> (case classify_rows f rs of Inl e \<Rightarrow> Inl e | Inr ls \<Rightarrow> Inr (l # ls)))"

definition predict :: "('a list \<Rightarrow> exc + 'l) \<Rightarrow> 'a ndarray \<Rightarrow> exc + 'l ndarray" where
  "predict f a =
     (case shape a of
        [n, k] \<Rightarrow>
          (case classify_rows f (rows_of n k (elems a)) of
             Inl e \<Rightarrow> Inl e
           | Inr ls \<Rightarrow> Inr \<lparr>shape = [n], elems = ls\<rparr>)
      | _ \<Rightarrow> Inl (Exc ValueError ''Expected 2D array''))"

definition tolist :: "'l ndarray \<Rightarrow> 'l list" where
  "tolist a = elems a"

text \<open>\<^verbatim>\<open>default_predict_fn\<close>: \<^verbatim>\<open>model.predict(payload).tolist()\<close>.\<close>

definition default_predict_fn ::
  "('m \<Rightarrow> 'a list \<Rightarrow> exc + 'l) \<Rightarrow> 'a ndarray \<Rightarrow> 'm \<Rightarrow> exc + 'l list" where
  "default_predict_fn classify payload model =
     (case predict (classify model) payload of Inl e \<Rightarrow> Inl e | Inr p \<Rightarrow> Inr (tolist p))"

subsection \<open>The handler service and the request loop's entry point\<close>

text \<open>
  The state of the module-level \<^verbatim>\<open>_service\<close>: the flag
  \<^verbatim>\<open>_service._service._initialized\<close> and the loaded model, with three counters that record
  how often the model loader, the transformer and the model's prediction have run. A request
  is its body with the content type and the accept type it declares; the context gives the
  model directory.
\<close>

record 'm service =
  initialized :: bool
  model :: "'m option"
  loads :: nat
  transforms :: nat
  predictions :: nat

definition new_service :: "'m service" where
  "new_service = \<lparr>initialized = False, model = None, loads = 0, transforms = 0, predictions = 0\<rparr>"

record request =
  body :: string
  content_type :: string
  accept :: string

record handler_context =
  model_dir :: string

text \<open>
  Modelled from the spec: \<^verbatim>\<open>_service.initialize(context)\<close> of the toolkit's
  \<^verbatim>\<open>DefaultHandlerService\<close>, which is not part of the repository. The specification has
  it deserialise the artifact from the model directory with the handler's model loader and
  enter the initialized state; when the artifact is absent or corrupt the loader's exception
  leaves the service uninitialized.
\<close>

definition initialize :: "'m world \<Rightarrow> handler_context \<Rightarrow> 'm service \<Rightarrow> (exc + unit) \<times> 'm service" where
  "initialize w context s =
     (case default_model_fn w (model_dir context) of
        Inl e \<Rightarrow> (Inl e, s\<lparr>loads := Suc (loads s)\<rparr>)
      | Inr m \<Rightarrow> (Inr (), s\<lparr>initialized := True, model := Some m, loads := Suc (loads s)\<rparr>))"

text \<open>
  Modelled from the spec: \<^verbatim>\<open>_service.handle(data, context)\<close>, the toolkit's transformer,
  which is not part of the repository. The specification has it validate the declared content
  type and decode the row, invoke the model's prediction function, then validate the declared
  accept type and encode the result: the three handler functions in this order, an exception
  of any of them left to the serving framework.
\<close>

definition transform ::
  "('a, 'l) toolkit \<Rightarrow> ('m \<Rightarrow> 'a list \<Rightarrow> exc + 'l) \<Rightarrow> request \<Rightarrow> 'm service
     \<Rightarrow> (exc + string) \<times> 'm service" where
  "transform T classify r s =
     (let s1 = s\<lparr>transforms := Suc (transforms s)\<rparr>
      in case model s1 of
           None \<Rightarrow> (Inl (Exc LibraryError ''model not loaded''), s1)
         | Some m \<Rightarrow>
             (case default_input_fn T (body r) (content_type r) of
                Inl e \<Rightarrow> (Inl e, s1)
              | Inr payload \<Rightarrow>
                  (let s2 = s1\<lparr>predictions := Suc (predictions s1)\<rparr>
                   in case default_predict_fn classify payload m of
                        Inl e \<Rightarrow> (Inl e, s2)
                      | Inr prediction \<Rightarrow> (default_output_fn T prediction (accept r), s2))))"

text \<open>
  \<^verbatim>\<open>handle(data, context)\<close>: the guard on the flag, the early return for \<^verbatim>\<open>data is None\<close>,
  then the transformer.
\<close>

definition handle ::
  "'m world \<Rightarrow> ('a, 'l) toolkit \<Rightarrow> ('m \<Rightarrow> 'a list \<Rightarrow> exc + 'l) \<Rightarrow> request option
     \<Rightarrow> handler_context \<Rightarrow> 'm service \<Rightarrow> (exc + string option) \<times> 'm service" where
  "handle w T classify data context s =
     (case (if \<not> initialized s then initialize w context s else (Inr (), s)) of
        (Inl e, s1) \<Rightarrow> (Inl e, s1)
      | (Inr u, s1) \<Rightarrow>
          (case data of
             None \<Rightarrow> (Inr None, s1)
           | Some r \<Rightarrow>
               (case transform T classify r s1 of
                  (Inl e, s2) \<Rightarrow> (Inl e, s2)
                | (Inr out, s2) \<Rightarrow> (Inr (Some out), s2))))"


subsection \<open>The entry point of the container\<close>

text \<open>
  The \<^verbatim>\<open>__main__\<close> block on \<^verbatim>\<open>sys.argv\<close>. \<open>start_model_server\<close> is the toolkit's
  model server, a parameter.
\<close>

definition usage_message :: string where
  "usage_message =
     ''Invalid argument: you must inform '' @ [quote] @ ''train'' @ [quote] @
     '' for training mode or '' @ [quote] @ ''serve'' @ [quote] @ '' predicting mode''"

definition main ::
  "('m, 'd, 'f) lib \<Rightarrow> ('m world \<Rightarrow> (exc + unit) \<times> 'm world) \<Rightarrow> string list \<Rightarrow> 'm world
     \<Rightarrow> (exc + unit) \<times> 'm world" where
  "main L start_model_server argv w =
     (if length argv < 2 \<or> \<not> (argv ! 1 \<in> set [''serve'', ''train'']) then
        (Inl (Exc PyException usage_message), w)
      else if argv ! 1 = ''train'' then start L w
      else start_model_server w)"

section \<open>Auxiliary definitions\<close>

text \<open>The length of the run of digits a text starts with.\<close>

definition digit_run :: "string \<Rightarrow> nat" where
  "digit_run s = length (takeWhile is_digit s)"

subsection \<open>Sample inputs\<close>

text \<open>
  The hyperparameters of the notebook's local test, as the platform writes them (every value a
  text), a library whose calls all succeed, and a filesystem with the given entries in the two
  input channels.
\<close>

definition json_text :: "string \<Rightarrow> string" where
  "json_text s = [CHR 0x22] @ s @ [CHR 0x22]"

definition sample_json :: string where
  "sample_json =
     ''{'' @ json_text ''max_depth'' @ '': '' @ json_text ''11'' @ '', '' @
     json_text ''n_jobs'' @ '': '' @ json_text ''5'' @ '', '' @
     json_text ''n_estimators'' @ '': '' @ json_text ''120'' @ ''}''"

definition sample_items :: "(string \<times> string) list" where
  "sample_items = [(''max_depth'', ''11''), (''n_jobs'', ''5''), (''n_estimators'', ''120'')]"

definition sample_lib :: "(nat, nat, rat) lib" where
  "sample_lib =
     \<lparr>json_load = (\<lambda>tc. if tc = sample_json then Inr sample_items
                         else Inl (Exc ValueError ''JSONDecodeError'')),
      to_float = (\<lambda>q. q),
      read_csv = (\<lambda>file. Inr 0),
      pd_concat = (\<lambda>ds. Inr 0),
      first_column = (\<lambda>d. Inr 0),
      other_columns = (\<lambda>d. Inr 0),
      set_params = (\<lambda>h. Inr ()),
      fit = (\<lambda>h X Y. Inr 0),
      score = (\<lambda>m X Y. Inr 1),
      str_float = (\<lambda>f. ''1.0''),
      format_exc = (\<lambda>e. ''Traceback (most recent call last)'')\<rparr>"

definition sample_world :: "string list \<Rightarrow> string list \<Rightarrow> nat world" where
  "sample_world train_names validation_names =
     \<lparr>files = [param_path \<mapsto> Text sample_json],
      listing = [path_join input_path ''train'' \<mapsto> train_names,
                 path_join input_path ''validation'' \<mapsto> validation_names,
                 model_path \<mapsto> [], output_path \<mapsto> []],
      stdout = [], stderr = [], fits = 0\<rparr>"

text \<open>
  A toolkit that decodes one iris row and encodes the three labels, a decoder of what it
  encodes, a classifier for model \<open>0\<close>, a request with the given declared types, and a
  filesystem that holds model \<open>0\<close> as the artifact.
\<close>

definition sample_toolkit :: "(rat, nat) toolkit" where
  "sample_toolkit =
     \<lparr>decode = (\<lambda>input_data content_type.
                  if input_data = ''5.1,3.5,1.4,0.2''
                  then Inr \<lparr>shape = [4], elems = [51 / 10, 7 / 2, 7 / 5, 1 / 5]\<rparr>
                  else Inl (Exc ValueError ''could not decode'')),
      encode = (\<lambda>prediction accept.
                  if prediction = [0] then Inr (''0.0'' @ [newline])
                  else if prediction = [1] then Inr (''1.0'' @ [newline])
                  else if prediction = [2] then Inr (''2.0'' @ [newline])
                  else Inl (Exc ValueError ''could not encode''))\<rparr>"

definition sample_csv_decode :: "string \<Rightarrow> nat list option" where
  "sample_csv_decode out =
     (if out = ''0.0'' @ [newline] then Some [0]
      else if out = ''1.0'' @ [newline] then Some [1]
      else if out = ''2.0'' @ [newline] then Some [2]
      else None)"

definition sample_classify :: "nat \<Rightarrow> rat list \<Rightarrow> exc + nat" where
  "sample_classify m row =
     (if length row = 4 then Inr (if row ! 2 < 5 / 2 then 0 else if row ! 3 < 17 / 10 then 1 else 2)
      else Inl (Exc ValueError ''X has a different number of features''))"

definition sample_request :: "string \<Rightarrow> string \<Rightarrow> request" where
  "sample_request ct ac = \<lparr>body = ''5.1,3.5,1.4,0.2'', content_type = ct, accept = ac\<rparr>"

definition sample_context :: handler_context where
  "sample_context = \<lparr>model_dir = ''/opt/ml/model''\<rparr>"

definition served_world :: "nat world" where
  "served_world =
     \<lparr>files = [''/opt/ml/model/iris_model.pkl'' \<mapsto> Pickle 0],
      listing = [''/opt/ml/model'' \<mapsto> [''iris_model.pkl'']],
      stdout = [], stderr = [], fits = 0\<rparr>"

definition loaded_service :: "nat service" where
  "loaded_service = \<lparr>initialized = True, model = Some 0, loads = 1, transforms = 0, predictions = 0\<rparr>"

section \<open>The two patterns, read as sets of texts\<close>

lemma plus_iter_Nil: "plus_iter n f [] = []"
  by (induction n) simp_all

lemma digit_run_Cons: "digit_run (c # cs) = (if is_digit c then Suc (digit_run cs) else 0)"
  by (simp add: digit_run_def)

lemma digit_run_Nil: "digit_run [] = 0"
  by (simp add: digit_run_def)

lemma plus_iter_Dig:
  "set (plus_iter n (run Dig) [(i, s)]) = {(i + k, drop k s) | k. k \<le> n \<and> k \<le> digit_run s}"
proof (induction n arbitrary: i s)
  case 0
  then show ?case by auto
next
  case (Suc n)
  show ?case
  proof (cases s)
    case Nil
    then show ?thesis by (auto simp: plus_iter_Nil digit_run_Nil)
  next
    case (Cons c cs)
    show ?thesis
    proof (cases "is_digit c")
      case False
      with Cons show ?thesis by (auto simp: plus_iter_Nil digit_run_Cons)
    next
      case True
      have "set (plus_iter (Suc n) (run Dig) [(i, s)]) =
            insert (i, s) {(Suc i + k, drop k cs) | k. k \<le> n \<and> k \<le> digit_run cs}"
        using Cons True Suc.IH [of "Suc i" cs] by simp
      also have "\<dots> = {(i + k, drop k s) | k. k \<le> Suc n \<and> k \<le> digit_run s}"
      proof (rule set_eqI, rule iffI)
        fix x assume "x \<in> insert (i, s) {(Suc i + k, drop k cs) | k. k \<le> n \<and> k \<le> digit_run cs}"
        then consider "x = (i, s)" | k where "x = (Suc i + k, drop k cs)" "k \<le> n" "k \<le> digit_run cs"
          by auto
        then show "x \<in> {(i + k, drop k s) | k. k \<le> Suc n \<and> k \<le> digit_run s}"
        proof cases
          case 1
          then have "x = (i + 0, drop 0 s)" by simp
          then show ?thesis by blast
        next
          case 2
          then have "x = (i + Suc k, drop (Suc k) s)" "Suc k \<le> Suc n" "Suc k \<le> digit_run s"
            using Cons True by (simp_all add: digit_run_Cons)
          then show ?thesis by blast
        qed
      next
        fix x assume "x \<in> {(i + k, drop k s) | k. k \<le> Suc n \<and> k \<le> digit_run s}"
        then obtain k where k: "x = (i + k, drop k s)" "k \<le> Suc n" "k \<le> digit_run s" by auto
        show "x \<in> insert (i, s) {(Suc i + k, drop k cs) | k. k \<le> n \<and> k \<le> digit_run cs}"
        proof (cases k)
          case 0
          with k show ?thesis by simp
        next
          case (Suc m)
          with k Cons True have "x = (Suc i + m, drop m cs)" "m \<le> n" "m \<le> digit_run cs"
            by (simp_all add: digit_run_Cons)
          then show ?thesis by blast
        qed
      qed
      finally show ?thesis .
    qed
  qed
qed

lemma digit_run_le_length: "digit_run s \<le> length s"
  by (simp add: digit_run_def length_takeWhile_le)

lemma run_Plus_Dig:
  "set (run (Plus Dig) (i, s)) = {(i + k, drop k s) | k. 1 \<le> k \<and> k \<le> digit_run s}"
proof (cases s)
  case Nil
  then show ?thesis by (auto simp: digit_run_Nil)
next
  case (Cons c cs)
  show ?thesis
  proof (cases "is_digit c")
    case False
    with Cons show ?thesis by (auto simp: digit_run_Cons plus_iter_Nil)
  next
    case True
    have "set (run (Plus Dig) (i, s)) = set (plus_iter (Suc (length cs)) (run Dig) [(Suc i, cs)])"
      using Cons True by simp
    also have "\<dots> = {(Suc i + k, drop k cs) | k. k \<le> Suc (length cs) \<and> k \<le> digit_run cs}"
      by (rule plus_iter_Dig)
    also have "\<dots> = {(Suc i + k, drop k cs) | k. k \<le> digit_run cs}"
      using digit_run_le_length [of cs] by (auto intro: le_SucI order_trans)
    also have "\<dots> = {(i + k, drop k s) | k. 1 \<le> k \<and> k \<le> digit_run s}"
    proof (rule set_eqI, rule iffI)
      fix x assume "x \<in> {(Suc i + k, drop k cs) | k. k \<le> digit_run cs}"
      then obtain k where "x = (Suc i + k, drop k cs)" "k \<le> digit_run cs" by auto
      then have "x = (i + Suc k, drop (Suc k) s)" "1 \<le> Suc k" "Suc k \<le> digit_run s"
        using Cons True by (simp_all add: digit_run_Cons)
      then show "x \<in> {(i + k, drop k s) | k. 1 \<le> k \<and> k \<le> digit_run s}" by blast
    next
      fix x assume "x \<in> {(i + k, drop k s) | k. 1 \<le> k \<and> k \<le> digit_run s}"
      then obtain k where k: "x = (i + k, drop k s)" "1 \<le> k" "k \<le> digit_run s" by auto
      then obtain m where "k = Suc m" by (cases k) auto
      with k Cons True have "x = (Suc i + m, drop m cs)" "m \<le> digit_run cs"
        by (simp_all add: digit_run_Cons)
      then show "x \<in> {(Suc i + k, drop k cs) | k. k \<le> digit_run cs}" by blast
    qed
    finally show ?thesis .
  qed
qed


lemma newline_not_digit: "\<not> is_digit newline"
  by (simp add: is_digit_def newline_def)

lemma dot_not_digit: "\<not> is_digit (CHR ''.'')"
  by (simp add: is_digit_def)

lemma re_match_is_integer_iff:
  "re_match is_integer s \<longleftrightarrow>
     (\<exists>k. 1 \<le> k \<and> k \<le> digit_run s \<and> (drop k s = [] \<or> drop k s = [newline]))"
proof -
  have "re_match is_integer s \<longleftrightarrow>
        (\<exists>c \<in> set (run (Plus Dig) (0, s)). run Eol c \<noteq> [])"
    by (auto simp: re_match_def is_integer_def)
  also have "\<dots> \<longleftrightarrow> (\<exists>k. 1 \<le> k \<and> k \<le> digit_run s \<and> (drop k s = [] \<or> drop k s = [newline]))"
    unfolding run_Plus_Dig by auto
  finally show ?thesis .
qed

lemma digit_run_all: "list_all is_digit s \<Longrightarrow> digit_run s = length s"
  by (induction s) (simp_all add: digit_run_Nil digit_run_Cons)

lemma digit_run_append_stop: "list_all is_digit a \<Longrightarrow> \<not> is_digit c \<Longrightarrow> digit_run (a @ c # t) = length a"
  by (induction a) (simp_all add: digit_run_Cons)

lemma take_digit_run: "k \<le> digit_run s \<Longrightarrow> list_all is_digit (take k s)"
proof (induction s arbitrary: k)
  case Nil
  then show ?case by simp
next
  case (Cons c cs)
  then show ?case by (cases k) (auto simp: digit_run_Cons split: if_splits)
qed

lemma whole_number_text_iff:
  "whole_number_text (chomp s) \<longleftrightarrow>
     (\<exists>k. 1 \<le> k \<and> k \<le> digit_run s \<and> (drop k s = [] \<or> drop k s = [newline]))"
  (is "?L \<longleftrightarrow> ?R")
proof
  assume L: ?L
  show ?R
  proof (cases "s \<noteq> [] \<and> last s = newline")
    case True
    then have s: "s = butlast s @ [newline]" by (metis append_butlast_last_id)
    from True L have d: "butlast s \<noteq> []" "list_all is_digit (butlast s)"
      by (simp_all add: chomp_def whole_number_text_def)
    have "digit_run s = length (butlast s)"
      using digit_run_append_stop [OF d(2) newline_not_digit, of "[]"] s by simp
    moreover have "drop (length (butlast s)) s = [newline]"
      using s by (metis append_eq_conv_conj)
    moreover have "1 \<le> length (butlast s)" using d(1) by (cases "butlast s") simp_all
    ultimately show ?thesis by (intro exI [of _ "length (butlast s)"]) simp
  next
    case False
    with L have d: "s \<noteq> []" "list_all is_digit s"
      by (auto simp: chomp_def whole_number_text_def)
    then have "digit_run s = length s" by (simp add: digit_run_all)
    moreover have "1 \<le> length s" using d(1) by (cases s) simp_all
    ultimately show ?thesis by (intro exI [of _ "length s"]) simp
  qed
next
  assume ?R
  then obtain k where k: "1 \<le> k" "k \<le> digit_run s" and e: "drop k s = [] \<or> drop k s = [newline]"
    by blast
  have tk: "list_all is_digit (take k s)" using k(2) by (rule take_digit_run)
  have kl: "k \<le> length s" using k(2) digit_run_le_length [of s] by simp
  have tne: "take k s \<noteq> []" using k(1) kl by (cases s) auto
  from e show ?L
  proof
    assume "drop k s = []"
    then have s: "s = take k s" by (metis append_Nil2 append_take_drop_id)
    then have "list_all is_digit s" "s \<noteq> []" using tk tne by metis+
    moreover then have "last s \<noteq> newline"
      using newline_not_digit by (metis last_in_set list_all_iff)
    ultimately show ?thesis by (simp add: chomp_def whole_number_text_def)
  next
    assume "drop k s = [newline]"
    then have s: "s = take k s @ [newline]" by (metis append_take_drop_id)
    then have "chomp s = take k s"
      by (metis butlast_snoc chomp_def last_snoc snoc_eq_iff_butlast)
    then show ?thesis using tk tne by (simp add: whole_number_text_def)
  qed
qed

lemma re_match_is_integer: "re_match is_integer s = whole_number_text (chomp s)"
  by (simp add: re_match_is_integer_iff whole_number_text_iff)



lemma digits_then_eol:
  "(\<exists>c \<in> set (run (Plus Dig) (i, t)). run Eol c \<noteq> []) \<longleftrightarrow> whole_number_text (chomp t)"
proof -
  have "(\<exists>c \<in> set (run (Plus Dig) (i, t)). run Eol c \<noteq> []) \<longleftrightarrow>
        (\<exists>k. 1 \<le> k \<and> k \<le> digit_run t \<and> (drop k t = [] \<or> drop k t = [newline]))"
  proof
    assume "\<exists>c \<in> set (run (Plus Dig) (i, t)). run Eol c \<noteq> []"
    then obtain c where c: "c \<in> set (run (Plus Dig) (i, t))" and e: "run Eol c \<noteq> []" by blast
    from c obtain k where k: "c = (i + k, drop k t)" "1 \<le> k" "k \<le> digit_run t"
      unfolding run_Plus_Dig by auto
    from e k(1) have "drop k t = [] \<or> drop k t = [newline]" by (simp split: if_splits)
    with k show "\<exists>k. 1 \<le> k \<and> k \<le> digit_run t \<and> (drop k t = [] \<or> drop k t = [newline])"
      by blast
  next
    assume "\<exists>k. 1 \<le> k \<and> k \<le> digit_run t \<and> (drop k t = [] \<or> drop k t = [newline])"
    then obtain k where k: "1 \<le> k" "k \<le> digit_run t"
      and e: "drop k t = [] \<or> drop k t = [newline]" by blast
    have "(i + k, drop k t) \<in> set (run (Plus Dig) (i, t))"
      unfolding run_Plus_Dig using k by blast
    moreover have "run Eol (i + k, drop k t) \<noteq> []" using e by auto
    ultimately show "\<exists>c \<in> set (run (Plus Dig) (i, t)). run Eol c \<noteq> []" by blast
  qed
  then show ?thesis by (simp only: whole_number_text_iff)
qed

lemma whole_number_chomp_forms:
  "whole_number_text (chomp t) \<longleftrightarrow>
     (\<exists>b. b \<noteq> [] \<and> list_all is_digit b \<and> (t = b \<or> t = b @ [newline]))"
proof
  assume L: "whole_number_text (chomp t)"
  show "\<exists>b. b \<noteq> [] \<and> list_all is_digit b \<and> (t = b \<or> t = b @ [newline])"
  proof (cases "t \<noteq> [] \<and> last t = newline")
    case True
    then have "t = butlast t @ [newline]" by (metis append_butlast_last_id)
    moreover from True L have "butlast t \<noteq> []" "list_all is_digit (butlast t)"
      by (simp_all add: chomp_def whole_number_text_def)
    ultimately show ?thesis by blast
  next
    case False
    with L show ?thesis by (auto simp: chomp_def whole_number_text_def)
  qed
next
  assume "\<exists>b. b \<noteq> [] \<and> list_all is_digit b \<and> (t = b \<or> t = b @ [newline])"
  then obtain b where b: "b \<noteq> []" "list_all is_digit b" and t: "t = b \<or> t = b @ [newline]"
    by blast
  have "last b \<noteq> newline"
    using b newline_not_digit by (metis last_in_set list_all_iff)
  with b t show "whole_number_text (chomp t)"
    by (auto simp: chomp_def whole_number_text_def)
qed

lemma takeWhile_digits_stop:
  "list_all is_digit a \<Longrightarrow> \<not> is_digit c \<Longrightarrow> takeWhile is_digit (a @ c # t) = a"
  by (induction a) simp_all

lemma dropWhile_digits_stop:
  "list_all is_digit a \<Longrightarrow> \<not> is_digit c \<Longrightarrow> dropWhile is_digit (a @ c # t) = c # t"
  by (induction a) simp_all

lemma decimal_number_text_forms:
  "decimal_number_text u \<longleftrightarrow>
     (\<exists>a b. a \<noteq> [] \<and> list_all is_digit a \<and> b \<noteq> [] \<and> list_all is_digit b \<and>
            u = a @ CHR ''.'' # b)"
proof
  assume L: "decimal_number_text u"
  then obtain b where d: "dropWhile is_digit u = CHR ''.'' # b"
    and a: "takeWhile is_digit u \<noteq> []" and b: "whole_number_text b"
    by (auto simp: decimal_number_text_def split: list.splits)
  have "u = takeWhile is_digit u @ CHR ''.'' # b"
    using d takeWhile_dropWhile_id [of is_digit u] by simp
  moreover have "list_all is_digit (takeWhile is_digit u)"
    by (simp add: list_all_iff) (meson set_takeWhileD)
  ultimately show "\<exists>a b. a \<noteq> [] \<and> list_all is_digit a \<and> b \<noteq> [] \<and> list_all is_digit b \<and>
            u = a @ CHR ''.'' # b"
    using a b unfolding whole_number_text_def by blast
next
  assume "\<exists>a b. a \<noteq> [] \<and> list_all is_digit a \<and> b \<noteq> [] \<and> list_all is_digit b \<and>
            u = a @ CHR ''.'' # b"
  then obtain a b where ab: "a \<noteq> []" "list_all is_digit a" "b \<noteq> []" "list_all is_digit b"
    and u: "u = a @ CHR ''.'' # b" by blast
  show "decimal_number_text u"
    unfolding decimal_number_text_def u
    using ab by (simp add: takeWhile_digits_stop dropWhile_digits_stop dot_not_digit
        whole_number_text_def)
qed

lemma re_match_is_float_forms:
  "re_match is_float s \<longleftrightarrow>
     (\<exists>a b. a \<noteq> [] \<and> list_all is_digit a \<and> b \<noteq> [] \<and> list_all is_digit b \<and>
            (s = a @ CHR ''.'' # b \<or> s = a @ CHR ''.'' # b @ [newline]))"
  (is "?L \<longleftrightarrow> ?R")
proof -
  have "?L \<longleftrightarrow> (\<exists>c1 \<in> set (run (Plus Dig) (0, s)). \<exists>c2 \<in> set (run (Lit (CHR ''.'')) c1).
                   \<exists>c3 \<in> set (run (Plus Dig) c2). run Eol c3 \<noteq> [])"
    by (auto simp: re_match_def is_float_def)
  also have "\<dots> \<longleftrightarrow> (\<exists>k t. 1 \<le> k \<and> k \<le> digit_run s \<and> drop k s = CHR ''.'' # t \<and>
                   whole_number_text (chomp t))"
  proof
    assume "\<exists>c1 \<in> set (run (Plus Dig) (0, s)). \<exists>c2 \<in> set (run (Lit (CHR ''.'')) c1).
                   \<exists>c3 \<in> set (run (Plus Dig) c2). run Eol c3 \<noteq> []"
    then obtain c1 c2 where c1: "c1 \<in> set (run (Plus Dig) (0, s))"
      and c2: "c2 \<in> set (run (Lit (CHR ''.'')) c1)"
      and c3: "\<exists>c3 \<in> set (run (Plus Dig) c2). run Eol c3 \<noteq> []" by blast
    from c1 obtain k where k: "c1 = (k, drop k s)" "1 \<le> k" "k \<le> digit_run s"
      unfolding run_Plus_Dig by auto
    from c2 k(1) have "\<exists>t. drop k s = CHR ''.'' # t \<and> c2 = (Suc k, t)"
      by (cases "drop k s") (auto split: if_splits)
    then obtain t where t: "drop k s = CHR ''.'' # t" "c2 = (Suc k, t)" by blast
    from c3 t(2) have "whole_number_text (chomp t)"
      using digits_then_eol [of "Suc k" t] by blast
    with k t show "\<exists>k t. 1 \<le> k \<and> k \<le> digit_run s \<and> drop k s = CHR ''.'' # t \<and>
                   whole_number_text (chomp t)" by blast
  next
    assume "\<exists>k t. 1 \<le> k \<and> k \<le> digit_run s \<and> drop k s = CHR ''.'' # t \<and>
                   whole_number_text (chomp t)"
    then obtain k t where k: "1 \<le> k" "k \<le> digit_run s" and t: "drop k s = CHR ''.'' # t"
      and w: "whole_number_text (chomp t)" by blast
    have "(k, drop k s) \<in> set (run (Plus Dig) (0, s))"
      unfolding run_Plus_Dig using k by auto
    moreover have "(Suc k, t) \<in> set (run (Lit (CHR ''.'')) (k, drop k s))"
      using t by simp
    moreover have "\<exists>c3 \<in> set (run (Plus Dig) (Suc k, t)). run Eol c3 \<noteq> []"
      using w digits_then_eol [of "Suc k" t] by blast
    ultimately show "\<exists>c1 \<in> set (run (Plus Dig) (0, s)). \<exists>c2 \<in> set (run (Lit (CHR ''.'')) c1).
                   \<exists>c3 \<in> set (run (Plus Dig) c2). run Eol c3 \<noteq> []" by blast
  qed
  also have "\<dots> \<longleftrightarrow> ?R"
  proof
    assume "\<exists>k t. 1 \<le> k \<and> k \<le> digit_run s \<and> drop k s = CHR ''.'' # t \<and>
                   whole_number_text (chomp t)"
    then obtain k t where k: "1 \<le> k" "k \<le> digit_run s" and t: "drop k s = CHR ''.'' # t"
      and w: "whole_number_text (chomp t)" by blast
    from w obtain b where b: "b \<noteq> []" "list_all is_digit b" "t = b \<or> t = b @ [newline]"
      unfolding whole_number_chomp_forms by blast
    have a: "list_all is_digit (take k s)" using k(2) by (rule take_digit_run)
    have "k \<le> length s" using k(2) digit_run_le_length [of s] by simp
    then have ane: "take k s \<noteq> []" using k(1) by (cases s) auto
    have "s = take k s @ CHR ''.'' # t" using t by (metis append_take_drop_id)
    with b(3) have "s = take k s @ CHR ''.'' # b \<or> s = take k s @ CHR ''.'' # b @ [newline]"
      by auto
    with a ane b(1,2) show ?R by blast
  next
    assume ?R
    then obtain a b where ab: "a \<noteq> []" "list_all is_digit a" "b \<noteq> []" "list_all is_digit b"
      and s: "s = a @ CHR ''.'' # b \<or> s = a @ CHR ''.'' # b @ [newline]" by blast
    define t where "t = drop (Suc (length a)) s"
    have t: "t = b \<or> t = b @ [newline]" and st: "s = a @ CHR ''.'' # t"
      using s unfolding t_def by auto
    have "digit_run s = length a"
      unfolding st using ab(2) dot_not_digit by (rule digit_run_append_stop)
    moreover have "1 \<le> length a" using ab(1) by (cases a) simp_all
    moreover have "drop (length a) s = CHR ''.'' # t" unfolding st by simp
    moreover have "whole_number_text (chomp t)"
      unfolding whole_number_chomp_forms using ab(3,4) t by blast
    ultimately show "\<exists>k t. 1 \<le> k \<and> k \<le> digit_run s \<and> drop k s = CHR ''.'' # t \<and>
                   whole_number_text (chomp t)" by (intro exI [of _ "length a"] exI [of _ t]) simp
  qed
  finally show ?thesis .
qed

lemma chomp_snoc_newline: "chomp (u @ [newline]) = u"
  by (simp add: chomp_def)

lemma chomp_no_newline: "u \<noteq> [] \<Longrightarrow> last u \<noteq> newline \<Longrightarrow> chomp u = u"
  by (simp add: chomp_def)

lemma chomp_cases: "s = chomp s \<or> s = chomp s @ [newline]"
  by (simp add: chomp_def) (metis append_butlast_last_id)

lemma digits_last_not_newline: "b \<noteq> [] \<Longrightarrow> list_all is_digit b \<Longrightarrow> last b \<noteq> newline"
  using newline_not_digit by (metis last_in_set list_all_iff)

lemma re_match_is_float: "re_match is_float s = decimal_number_text (chomp s)"
proof
  assume "re_match is_float s"
  then obtain a b where ab: "a \<noteq> []" "list_all is_digit a" "b \<noteq> []" "list_all is_digit b"
      and s: "s = a @ CHR ''.'' # b \<or> s = a @ CHR ''.'' # b @ [newline]"
    unfolding re_match_is_float_forms by blast
  have l: "last (a @ CHR ''.'' # b) \<noteq> newline"
    using digits_last_not_newline [OF ab(3,4)] ab(3) by simp
  have "chomp s = a @ CHR ''.'' # b"
    using s
  proof
    assume "s = a @ CHR ''.'' # b"
    then show ?thesis using l chomp_no_newline [of "a @ CHR ''.'' # b"] by simp
  next
    assume "s = a @ CHR ''.'' # b @ [newline]"
    then have "s = (a @ CHR ''.'' # b) @ [newline]" by simp
    then show ?thesis by (simp only: chomp_snoc_newline)
  qed
  then show "decimal_number_text (chomp s)"
    unfolding decimal_number_text_forms using ab by blast
next
  assume "decimal_number_text (chomp s)"
  then obtain a b where ab: "a \<noteq> []" "list_all is_digit a" "b \<noteq> []" "list_all is_digit b"
      and c: "chomp s = a @ CHR ''.'' # b"
    unfolding decimal_number_text_forms by blast
  from chomp_cases [of s] c have "s = a @ CHR ''.'' # b \<or> s = a @ CHR ''.'' # b @ [newline]"
    by auto
  then show "re_match is_float s"
    unfolding re_match_is_float_forms using ab by blast
qed


lemma digit_not_space: "is_digit c \<Longrightarrow> \<not> py_space c"
  by (auto simp: is_digit_def py_space_def)

lemma newline_space: "py_space newline"
  by (simp add: py_space_def newline_def)

lemma py_strip_plain:
  assumes "u \<noteq> []" "\<not> py_space (hd u)" "\<not> py_space (last u)"
  shows "py_strip u = u" and "py_strip (u @ [newline]) = u"
proof -
  have d: "dropWhile py_space u = u" using assms(1,2) by (cases u) simp_all
  have r: "dropWhile py_space (rev u) = rev u"
    using assms(1,3) by (cases "rev u") (simp_all add: last_rev [symmetric] hd_rev)
  show "py_strip u = u" by (simp add: py_strip_def d r)
  have d': "dropWhile py_space (u @ [newline]) = u @ [newline]"
    using assms(1,2) by (cases u) simp_all
  show "py_strip (u @ [newline]) = u"
    by (simp add: py_strip_def d' r newline_space)
qed

lemma py_strip_chomp:
  assumes "chomp v \<noteq> []" "\<not> py_space (hd (chomp v))" "\<not> py_space (last (chomp v))"
  shows "py_strip v = chomp v"
  using chomp_cases [of v] py_strip_plain [OF assms] by metis

lemma whole_number_ends:
  assumes "whole_number_text u"
  shows "u \<noteq> []" "\<not> py_space (hd u)" "\<not> py_space (last u)"
proof -
  show ne: "u \<noteq> []" using assms by (simp add: whole_number_text_def)
  have all: "\<forall>c \<in> set u. is_digit c" using assms by (simp add: whole_number_text_def list_all_iff)
  show "\<not> py_space (hd u)" using ne all digit_not_space by (metis hd_in_set)
  show "\<not> py_space (last u)" using ne all digit_not_space by (metis last_in_set)
qed

lemma decimal_number_ends:
  assumes "decimal_number_text u"
  shows "u \<noteq> []" "\<not> py_space (hd u)" "\<not> py_space (last u)"
proof -
  from assms obtain a b where ab: "a \<noteq> []" "list_all is_digit a" "b \<noteq> []" "list_all is_digit b"
    and u: "u = a @ CHR ''.'' # b"
    unfolding decimal_number_text_forms by blast
  show "u \<noteq> []" using u by simp
  have "hd u = hd a" using u ab(1) by simp
  moreover have "is_digit (hd a)" using ab(1,2) by (metis hd_in_set list_all_iff)
  ultimately show "\<not> py_space (hd u)" using digit_not_space by simp
  have "last u = last b" using u ab(3) by simp
  moreover have "is_digit (last b)" using ab(3,4) by (metis last_in_set list_all_iff)
  ultimately show "\<not> py_space (last u)" using digit_not_space by simp
qed

lemma py_int_whole:
  assumes "whole_number_text (chomp v)"
  shows "py_int v = Inr (int (digits_value (chomp v)))"
proof -
  have "py_strip v = chomp v" using whole_number_ends [OF assms] by (rule py_strip_chomp)
  then show ?thesis using assms by (simp add: py_int_def whole_number_text_def)
qed

lemma py_float_decimal:
  assumes "decimal_number_text (chomp v)"
  shows "py_float rnd v = Inr (rnd (decimal_text_value (chomp v)))"
proof -
  have s: "py_strip v = chomp v" using decimal_number_ends [OF assms] by (rule py_strip_chomp)
  from assms obtain c b where d: "dropWhile is_digit (chomp v) = c # b"
    and ok: "takeWhile is_digit (chomp v) \<noteq> []" "c = CHR ''.''" "whole_number_text b"
    by (auto simp: decimal_number_text_def split: list.splits)
  show ?thesis
    using d ok by (simp add: py_float_def s decimal_text_value_def whole_number_text_def)
qed

lemma coerce_eq: "coerce rnd v = Inr (chomp_coerce rnd v)"
proof (cases "re_match is_float v")
  case True
  then have "decimal_number_text (chomp v)" by (simp add: re_match_is_float)
  then show ?thesis using True by (simp add: coerce_def chomp_coerce_def py_float_decimal)
next
  case nf: False
  then have nd: "\<not> decimal_number_text (chomp v)" by (simp add: re_match_is_float)
  show ?thesis
  proof (cases "re_match is_integer v")
    case True
    then have "whole_number_text (chomp v)" by (simp add: re_match_is_integer)
    then show ?thesis using nf nd True by (simp add: coerce_def chomp_coerce_def py_int_whole)
  next
    case False
    then have "\<not> whole_number_text (chomp v)" by (simp add: re_match_is_integer)
    then show ?thesis using nf nd False by (simp add: coerce_def chomp_coerce_def)
  qed
qed

lemma coerce_items_eq:
  "coerce_items rnd kvs h = Inr (\<lambda>k. case map_of (rev kvs) k of None \<Rightarrow> h k | Some v \<Rightarrow> Some (chomp_coerce rnd v))"
proof (induction kvs arbitrary: h)
  case Nil
  then show ?case by simp
next
  case (Cons kv kvs)
  obtain k v where kv: "kv = (k, v)" by (cases kv)
  show ?case
    unfolding kv by (simp add: coerce_eq Cons.IH) (auto simp: fun_eq_iff map_add_def split: option.splits)
qed

section \<open>Hyperparameter coercion\<close>

lemma chomp_coerce_without_final_newline:
  "v = [] \<or> last v \<noteq> newline \<Longrightarrow> chomp_coerce rnd v = spec_coerce rnd v"
  by (auto simp: chomp_coerce_def spec_coerce_def chomp_def)

text \<open>
  C2, as stated: every value of the hyperparameter file is coerced as \<open>spec_coerce\<close> says, to
  a floating-point value if the text is digits, a dot and digits, else to an integer if the text
  is digits only, else left as it is. This fails on the text \<^verbatim>\<open>12\<close> followed by a
  newline: it is not digits only, yet \<^verbatim>\<open>$\<close> matches before the final newline,
  \<^verbatim>\<open>is_integer\<close> matches, and \<^verbatim>\<open>int\<close> gives 12.
\<close>

theorem coerce_trailing_newline_counterexample:
  "coerce id [CHR ''1'', CHR ''2'', newline] \<noteq> Inr (spec_coerce id [CHR ''1'', CHR ''2'', newline])"
  by (simp add: coerce_def re_match_def is_float_def is_integer_def py_int_def py_strip_def
      py_space_def spec_coerce_def decimal_number_text_def whole_number_text_def is_digit_def
      newline_def)

text \<open>
  C2, amended: for every key/value pair of the hyperparameter file (a readable file that parses
  to items with distinct keys), the hyperparameters hold under that key the value
  \<open>chomp_coerce\<close> gives: with \<open>t\<close> the text without one final newline, a floating-point
  value, the rounded numeric value of \<open>t\<close>, if \<open>t\<close> is digits, a dot and digits; else the
  integer value of \<open>t\<close> if \<open>t\<close> is digits only; else the original text unchanged. No
  conversion raises.
\<close>

theorem hyperparameters_coerced:
  assumes "files w param_path = Some (Text tc)" and "json_load L tc = Inr items"
    and "distinct (map fst items)" and "(k, v) \<in> set items"
  shows "\<exists>h. read_hyperparameters L w = Inr h \<and> h k = Some (chomp_coerce (to_float L) v)"
proof -
  have "map_of (rev items) k = Some v"
    using assms(3,4) by (simp add: distinct_rev rev_map [symmetric])
  then show ?thesis
    using assms(1,2) by (simp add: read_hyperparameters_def read_text_def coerce_items_eq)
qed

theorem hyperparameters_coerced_witness:
  "\<exists>h. read_hyperparameters sample_lib (sample_world [''training.csv''] [''validation.csv'']) = Inr h \<and>
       h ''max_depth'' = Some (HInt 11)"
proof -
  have f: "files (sample_world [''training.csv''] [''validation.csv'']) param_path =
           Some (Text sample_json)"
    by (simp add: sample_world_def)
  have j: "json_load sample_lib sample_json = Inr sample_items" by (simp add: sample_lib_def)
  have d: "distinct (map fst sample_items)" by (simp add: sample_items_def)
  have m: "(''max_depth'', ''11'') \<in> set sample_items" by (simp add: sample_items_def)
  have c: "chomp_coerce (to_float sample_lib) ''11'' = HInt 11"
    by (simp add: chomp_coerce_def chomp_def decimal_number_text_def whole_number_text_def
        is_digit_def newline_def digits_value_def digit_value_def)
  show ?thesis using hyperparameters_coerced [OF f j d m] c by simp
qed

section \<open>The training routine: success and failure\<close>
lemma traceback_unbound:
  "global_name ''traceback'' = Inl (Exc NameError (''name '' @ [quote] @ ''traceback'' @ [quote] @ '' is not defined''))"
  by (simp add: global_name_def training_globals_def py_builtins_def)

lemma sys_unbound:
  "global_name ''sys'' = Inl (Exc NameError (''name '' @ [quote] @ ''sys'' @ [quote] @ '' is not defined''))"
  by (simp add: global_name_def training_globals_def py_builtins_def)

lemma report_failure_raises:
  "report_failure L c m w =
     (Inl (Exc NameError (''name '' @ [quote] @ ''traceback'' @ [quote] @ '' is not defined'')), w)"
  by (simp add: report_failure_def traceback_unbound)

lemma start_caught:
  assumes "train_body L (print ''Training mode'' w) = (Inl (Exc c m), w1)" and "is_Exception c"
  shows "start L w =
     (Inl (Exc NameError (''name '' @ [quote] @ ''traceback'' @ [quote] @ '' is not defined'')), w1)"
  using assms by (simp add: start_def report_failure_raises)

lemma empty_channel_raises:
  assumes "read_hyperparameters L w = Inr h"
    and "listing w (path_join input_path ''train'') = Some train_names"
    and "listing w (path_join input_path ''validation'') = Some validation_names"
    and "train_names = [] \<or> validation_names = []"
  shows "train_body L w =
     (Inl (Exc ValueError (no_files_message (path_join input_path ''train'') ''train''
                             (path_join input_path ''validation'') ''validation'')), w)"
  using assms by (auto simp: train_body_def load_inputs_def bind_def listdir_def check_channels_def)

lemma sample_hyperparameters:
  "\<exists>h. read_hyperparameters sample_lib (print s (sample_world a b)) = Inr h"
  by (simp add: read_hyperparameters_def read_text_def print_def sample_world_def sample_lib_def
      sample_items_def coerce_eq)

lemma sample_body_empty:
  "train_body sample_lib (print ''Training mode'' (sample_world [] [''validation.csv''])) =
     (Inl (Exc ValueError (no_files_message (path_join input_path ''train'') ''train''
                             (path_join input_path ''validation'') ''validation'')),
      print ''Training mode'' (sample_world [] [''validation.csv'']))"
proof -
  obtain h where h: "read_hyperparameters sample_lib (print ''Training mode'' (sample_world [] [''validation.csv''])) = Inr h"
    using sample_hyperparameters by blast
  have t: "listing (print ''Training mode'' (sample_world [] [''validation.csv'']))
             (path_join input_path ''train'') = Some []"
    by (simp add: print_def sample_world_def input_path_def prefix_def path_join_def)
  have v: "listing (print ''Training mode'' (sample_world [] [''validation.csv'']))
             (path_join input_path ''validation'') = Some [''validation.csv'']"
    by (simp add: print_def sample_world_def input_path_def model_path_def output_path_def
        prefix_def path_join_def)
  show ?thesis by (rule empty_channel_raises [OF h t v]) simp
qed

lemma sample_failure_run:
  "start sample_lib (sample_world [] [''validation.csv'']) =
     (Inl (Exc NameError (''name '' @ [quote] @ ''traceback'' @ [quote] @ '' is not defined'')),
      print ''Training mode'' (sample_world [] [''validation.csv'']))"
  by (rule start_caught [OF sample_body_empty]) (simp add: is_Exception_def)

text \<open>
  C1: every exception raised inside the training routine's body is caught, a failure report is
  written to \<^verbatim>\<open>output/failure\<close>, the same text goes to the error stream and the
  process exits with status 255. Evaluated on a run whose body raises (the train channel is
  empty): the handler itself raises \<open>NameError\<close>, since \<^verbatim>\<open>training.py\<close> imports
  neither \<^verbatim>\<open>traceback\<close> nor \<^verbatim>\<open>sys\<close>; the script writes no failure file and
  nothing to the error stream, and the exit status is 1, not 255. By \<open>start_caught\<close> the same
  holds for every exception the handler catches.
\<close>

theorem training_exception_not_reported:
  "(case main sample_lib serve [''inference_handler.py'', ''train'']
           (sample_world [] [''validation.csv'']) of
      (r, w') \<Rightarrow>
        r = Inl (Exc NameError (''name '' @ [quote] @ ''traceback'' @ [quote] @ '' is not defined'')) \<and>
        exit_status r = 1 \<and>
        files w' ''/opt/ml/output/failure'' = None \<and>
        stderr w' = [])"
proof -
  have nofile: "files (print ''Training mode'' (sample_world [] [''validation.csv'']))
                  ''/opt/ml/output/failure'' = None"
    and noerr: "stderr (print ''Training mode'' (sample_world [] [''validation.csv''])) = []"
    by (simp_all add: print_def sample_world_def param_path_def prefix_def path_join_def)
  show ?thesis
    by (simp add: main_def sample_failure_run nofile noerr)
qed

theorem training_exception_not_reported_witness:
  "exit_status (fst (main sample_lib (\<lambda>w. (Inr (), w)) [''inference_handler.py'', ''train'']
      (sample_world [] [''validation.csv'']))) = 1"
  using training_exception_not_reported [of "\<lambda>w. (Inr (), w)"]
  by (simp split: prod.splits)

text \<open>
  C3: with an empty train or validation directory the training routine raises a configuration
  error whose message names both directory paths, before any fitting, and this failure writes a
  failure report and exits with status 255. Evaluated on an empty train channel: the body
  raises the \<open>ValueError\<close> with both paths in its message and \<open>fit\<close> has not been called
  (\<open>empty_channel_raises\<close> shows this for every such input); but the run ends with exit
  status 1 and without a failure file, by the handler's \<open>NameError\<close>.
\<close>

theorem empty_train_channel_outcome:
  "train_body sample_lib (print ''Training mode'' (sample_world [] [''validation.csv''])) =
     (Inl (Exc ValueError
        (''There are no files in /opt/ml/input/data/train or train.'' @ [backslash, CHR ''n''] @
         ''This usually indicates that the channel (/opt/ml/input/data/validation or validation) was incorrectly specified,'' @
         [backslash, CHR ''n''] @
         ''the data specification in S3 was incorrectly specified or the role specified'' @
         [backslash, CHR ''n''] @
         ''does not have permission to access the data.'')),
      print ''Training mode'' (sample_world [] [''validation.csv''])) \<and>
   exit_status (fst (start sample_lib (sample_world [] [''validation.csv'']))) = 1 \<and>
   fits (snd (start sample_lib (sample_world [] [''validation.csv'']))) = 0 \<and>
   files (snd (start sample_lib (sample_world [] [''validation.csv'']))) ''/opt/ml/output/failure'' = None"
proof -
  have msg: "no_files_message (path_join input_path ''train'') ''train''
               (path_join input_path ''validation'') ''validation'' =
        ''There are no files in /opt/ml/input/data/train or train.'' @ [backslash, CHR ''n''] @
         ''This usually indicates that the channel (/opt/ml/input/data/validation or validation) was incorrectly specified,'' @
         [backslash, CHR ''n''] @
         ''the data specification in S3 was incorrectly specified or the role specified'' @
         [backslash, CHR ''n''] @
         ''does not have permission to access the data.''"
    by (simp add: no_files_message_def input_path_def prefix_def path_join_def)
  have nofile: "files (print ''Training mode'' (sample_world [] [''validation.csv'']))
                  ''/opt/ml/output/failure'' = None"
    and nofit: "fits (print ''Training mode'' (sample_world [] [''validation.csv''])) = 0"
    by (simp_all add: print_def sample_world_def param_path_def prefix_def path_join_def)
  show ?thesis
    by (simp add: sample_body_empty sample_failure_run msg nofile nofit)
qed

theorem empty_train_channel_outcome_witness:
  "fits (snd (start sample_lib (sample_world [] [''validation.csv'']))) = 0 \<and>
   exit_status (fst (start sample_lib (sample_world [] [''validation.csv'']))) = 1"
  using empty_train_channel_outcome by simp
lemma write_file_files:
  "write_file w d name c = Inr w' \<Longrightarrow> files w' (path_join d name) = Some c"
  by (auto simp: write_file_def split: option.splits)

lemma fit_and_save_success:
  assumes "fit_and_save L h X Y Xv Yv w = (Inr u, w')"
  shows "\<exists>h' m. fit L h' X Y = Inr m \<and>
           files w' (path_join model_path ''iris_model.pkl'') = Some (Pickle m)"
  using assms
  by (auto simp: fit_and_save_def Let_def split: sum.splits dest: write_file_files)

lemma start_success:
  assumes "start L w = (Inr u, w')"
  shows "\<exists>h X Y m. fit L h X Y = Inr m \<and>
           files w' (path_join model_path ''iris_model.pkl'') = Some (Pickle m)"
proof -
  from assms have "train_body L (print ''Training mode'' w) = (Inr (), w')"
    by (auto simp: start_def report_failure_raises split: sum.splits exc.splits if_splits prod.splits)
  then obtain h X Y Xv Yv where
    fs: "fit_and_save L h X Y Xv Yv (print ''Training mode'' w) = (Inr (), w')"
    by (auto simp: train_body_def split: sum.splits prod.splits)
  from fit_and_save_success [OF fs] obtain h' m where
    "fit L h' X Y = Inr m" "files w' (path_join model_path ''iris_model.pkl'') = Some (Pickle m)"
    by blast
  then show ?thesis by blast
qed

text \<open>
  C9: the artifact filename agrees between training and serving. A successful training run has
  written the model \<open>fit\<close> returned to \<^verbatim>\<open>/opt/ml/model/iris_model.pkl\<close>, that is
  \<^verbatim>\<open>iris_model.pkl\<close> under the fixed model directory, and the serving model loader,
  given that directory, opens this file and returns this model.
\<close>

theorem served_model_is_trained_model:
  assumes "start L w = (Inr (), w')"
  shows "\<exists>h X Y m. fit L h X Y = Inr m \<and>
           files w' ''/opt/ml/model/iris_model.pkl'' = Some (Pickle m) \<and>
           default_model_fn w' model_path = Inr m"
proof -
  have p: "path_join model_path ''iris_model.pkl'' = ''/opt/ml/model/iris_model.pkl''"
    by (simp add: model_path_def prefix_def path_join_def)
  from start_success [OF assms] obtain h X Y m where
    m: "fit L h X Y = Inr m" "files w' (path_join model_path ''iris_model.pkl'') = Some (Pickle m)"
    by blast
  from m(2) have "default_model_fn w' model_path = Inr m" by (simp add: default_model_fn_def)
  with m p show ?thesis by metis
qed

lemma sample_start:
  "\<exists>w'. start sample_lib (sample_world [''training.csv''] [''validation.csv'']) = (Inr (), w')"
proof -
  define W where "W = print ''Training mode'' (sample_world [''training.csv''] [''validation.csv''])"
  obtain h where h: "read_hyperparameters sample_lib W = Inr h"
    unfolding W_def using sample_hyperparameters by blast
  have t: "listing W (path_join input_path ''train'') = Some [''training.csv'']"
    by (simp add: W_def print_def sample_world_def input_path_def model_path_def output_path_def
        prefix_def path_join_def)
  have v: "listing W (path_join input_path ''validation'') = Some [''validation.csv'']"
    by (simp add: W_def print_def sample_world_def input_path_def model_path_def output_path_def
        prefix_def path_join_def)
  have m: "listing W model_path = Some []"
    by (simp add: W_def print_def sample_world_def input_path_def model_path_def output_path_def
        prefix_def path_join_def)
  have l: "load_inputs sample_lib W = Inr (h, 0, 0, 0, 0)"
    by (simp add: load_inputs_def bind_def h listdir_def t v check_channels_def Let_def)
       (simp add: sample_lib_def)
  have "\<exists>w'. fit_and_save sample_lib h 0 0 0 0 W = (Inr (), w')"
    by (simp add: fit_and_save_def Let_def write_file_def print_def m sample_lib_def)
  then obtain w' where "train_body sample_lib W = (Inr (), w')"
    by (auto simp: train_body_def l)
  then have "start sample_lib (sample_world [''training.csv''] [''validation.csv'']) = (Inr (), w')"
    by (simp add: start_def W_def)
  then show ?thesis by blast
qed

theorem served_model_is_trained_model_witness:
  "\<exists>w'. start sample_lib (sample_world [''training.csv''] [''validation.csv'']) = (Inr (), w') \<and>
     (\<exists>h X Y m. fit sample_lib h X Y = Inr m \<and>
           files w' ''/opt/ml/model/iris_model.pkl'' = Some (Pickle m) \<and>
           default_model_fn w' model_path = Inr m)"
proof -
  obtain w' where w': "start sample_lib (sample_world [''training.csv''] [''validation.csv'']) = (Inr (), w')"
    using sample_start by blast
  show ?thesis using served_model_is_trained_model [OF w'] w' by blast
qed

section \<open>The container entry point\<close>

text \<open>
  C4: the dispatcher, given the single argument \<^verbatim>\<open>train\<close>, invokes only the training
  routine (its outcome is that of \<open>start\<close>, whatever the model server is); given
  \<^verbatim>\<open>serve\<close>, only the model server; given any other argument, or none, it raises the
  usage error and leaves the state as it found it.
\<close>

theorem dispatcher_routes:
  "main L serve [prog, ''train''] w = start L w \<and>
   main L serve [prog, ''serve''] w = serve w \<and>
   (arg \<noteq> ''train'' \<and> arg \<noteq> ''serve'' \<longrightarrow>
      main L serve (prog # arg # rest) w = (Inl (Exc PyException usage_message), w)) \<and>
   main L serve [prog] w = (Inl (Exc PyException usage_message), w) \<and>
   main L serve [] w = (Inl (Exc PyException usage_message), w)"
  by (simp add: main_def)

theorem dispatcher_routes_witness:
  "main sample_lib (\<lambda>w. (Inr (), w)) [''inference_handler.py'', ''predict''] served_world =
     (Inl (Exc PyException usage_message), served_world)"
  using dispatcher_routes [of sample_lib "\<lambda>w. (Inr (), w)" "''inference_handler.py''" served_world
      "''predict''" "[]"]
  by simp

section \<open>The inference handler\<close>


lemma default_input_fn_rejects:
  "ct \<noteq> ''text/csv'' \<Longrightarrow>
     default_input_fn T input_data ct = Inl (Exc PyException (''Invalid content-type: '' @ ct))"
  by (simp add: default_input_fn_def)

lemma default_output_fn_rejects:
  "ac \<noteq> ''text/csv'' \<Longrightarrow>
     default_output_fn T prediction ac = Inl (Exc PyException (''Invalid accept: '' @ ac))"
  by (simp add: default_output_fn_def)

lemma transform_invalid_content_type:
  assumes "content_type r \<noteq> ''text/csv''"
  shows "predictions (snd (transform T classify r s)) = predictions s"
    and "model s = Some m \<Longrightarrow> fst (transform T classify r s) =
           Inl (Exc PyException (''Invalid content-type: '' @ content_type r))"
  using assms by (simp_all add: transform_def Let_def default_input_fn_rejects split: option.splits)

lemma initialize_counts:
  "transforms (snd (initialize w context s)) = transforms s"
  "predictions (snd (initialize w context s)) = predictions s"
  "loads (snd (initialize w context s)) = Suc (loads s)"
  by (simp_all add: initialize_def split: sum.splits)

lemma handle_request_initialized:
  assumes "initialized s"
  shows "snd (handle w T classify (Some r) context s) = snd (transform T classify r s)"
    and "fst (handle w T classify (Some r) context s) =
           (case fst (transform T classify r s) of Inl e \<Rightarrow> Inl e | Inr out \<Rightarrow> Inr (Some out))"
  using assms
  by (cases "transform T classify r s"; cases "fst (transform T classify r s)";
      simp add: handle_def)+

lemma handle_request_uninitialized:
  assumes "\<not> initialized s"
  shows "snd (handle w T classify (Some r) context s) =
           (case fst (initialize w context s) of
              Inl e \<Rightarrow> snd (initialize w context s)
            | Inr u \<Rightarrow> snd (transform T classify r (snd (initialize w context s))))"
  using assms
  by (cases "initialize w context s"; cases "fst (initialize w context s)";
      cases "transform T classify r (snd (initialize w context s))";
      cases "fst (transform T classify r (snd (initialize w context s)))";
      simp add: handle_def)

text \<open>
  C5: for every request whose declared content type is not \<^verbatim>\<open>text/csv\<close>, the input
  decoding raises an error whose message names the invalid content type, and the model's
  prediction function is not invoked for that request: the count of predictions is unchanged
  by the invocation, and a service that holds its model answers with this error.
\<close>

theorem invalid_content_type_rejected:
  assumes "content_type r \<noteq> ''text/csv''"
  shows "default_input_fn T (body r) (content_type r) =
           Inl (Exc PyException (''Invalid content-type: '' @ content_type r)) \<and>
         predictions (snd (handle w T classify (Some r) context s)) = predictions s \<and>
         (initialized s \<and> model s \<noteq> None \<longrightarrow>
            fst (handle w T classify (Some r) context s) =
              Inl (Exc PyException (''Invalid content-type: '' @ content_type r)))"
proof (intro conjI impI)
  show "default_input_fn T (body r) (content_type r) =
           Inl (Exc PyException (''Invalid content-type: '' @ content_type r))"
    using assms by (rule default_input_fn_rejects)
  show "predictions (snd (handle w T classify (Some r) context s)) = predictions s"
  proof (cases "initialized s")
    case True
    then show ?thesis
      using transform_invalid_content_type(1) [OF assms, of T classify s]
      by (simp add: handle_request_initialized(1))
  next
    case False
    note u = handle_request_uninitialized [OF False, of w T classify r "context"]
    have "predictions (snd (transform T classify r (snd (initialize w context s)))) = predictions s"
      using transform_invalid_content_type(1) [OF assms, of T classify "snd (initialize w context s)"]
      by (simp add: initialize_counts(2))
    then show ?thesis
      by (simp add: u initialize_counts(2) split: sum.splits)
  qed
  assume "initialized s \<and> model s \<noteq> None"
  then obtain m where "initialized s" "model s = Some m" by auto
  then show "fst (handle w T classify (Some r) context s) =
              Inl (Exc PyException (''Invalid content-type: '' @ content_type r))"
    using transform_invalid_content_type(2) [OF assms, of s m T classify]
    by (simp add: handle_request_initialized(2))
qed

theorem invalid_content_type_rejected_witness:
  "fst (handle served_world sample_toolkit sample_classify
          (Some (sample_request ''application/json'' ''text/csv'')) sample_context loaded_service) =
     Inl (Exc PyException ''Invalid content-type: application/json'') \<and>
   predictions (snd (handle served_world sample_toolkit sample_classify
          (Some (sample_request ''application/json'' ''text/csv'')) sample_context loaded_service)) = 0"
proof -
  have c: "content_type (sample_request ''application/json'' ''text/csv'') \<noteq> ''text/csv''"
    by (simp add: sample_request_def)
  have l: "initialized loaded_service \<and> model loaded_service \<noteq> None" "predictions loaded_service = 0"
    by (simp_all add: loaded_service_def)
  have n: "content_type (sample_request ''application/json'' ''text/csv'') = ''application/json''"
    by (simp add: sample_request_def)
  show ?thesis
    using invalid_content_type_rejected [OF c, of sample_toolkit served_world sample_classify
        sample_context loaded_service] l n
    by simp
qed

lemma transform_invalid_accept:
  assumes "accept r \<noteq> ''text/csv''" and "model s = Some m"
    and "default_input_fn T (body r) (content_type r) = Inr payload"
    and "default_predict_fn classify payload m = Inr prediction"
  shows "transform T classify r s =
           (Inl (Exc PyException (''Invalid accept: '' @ accept r)),
            s\<lparr>transforms := Suc (transforms s), predictions := Suc (predictions s)\<rparr>)"
  using assms by (simp add: transform_def Let_def default_output_fn_rejects)

text \<open>
  C6: for every request whose declared accept type is not \<^verbatim>\<open>text/csv\<close>, the output
  encoding raises an error whose message names the invalid accept type; in an invocation whose
  row decodes and whose prediction succeeds, the prediction has been computed (it is counted)
  and the invocation ends with this error instead of a response.
\<close>

theorem invalid_accept_rejected:
  assumes "accept r \<noteq> ''text/csv''"
  shows "default_output_fn T prediction (accept r) =
           Inl (Exc PyException (''Invalid accept: '' @ accept r)) \<and>
         (initialized s \<and> model s = Some m \<and>
          default_input_fn T (body r) (content_type r) = Inr payload \<and>
          default_predict_fn classify payload m = Inr prediction \<longrightarrow>
            handle w T classify (Some r) context s =
              (Inl (Exc PyException (''Invalid accept: '' @ accept r)),
               s\<lparr>transforms := Suc (transforms s), predictions := Suc (predictions s)\<rparr>))"
proof (intro conjI impI)
  show "default_output_fn T prediction (accept r) =
           Inl (Exc PyException (''Invalid accept: '' @ accept r))"
    using assms by (rule default_output_fn_rejects)
  assume h: "initialized s \<and> model s = Some m \<and>
          default_input_fn T (body r) (content_type r) = Inr payload \<and>
          default_predict_fn classify payload m = Inr prediction"
  then have h1: "model s = Some m"
    and h2: "default_input_fn T (body r) (content_type r) = Inr payload"
    and h3: "default_predict_fn classify payload m = Inr prediction" by simp_all
  have "transform T classify r s =
           (Inl (Exc PyException (''Invalid accept: '' @ accept r)),
            s\<lparr>transforms := Suc (transforms s), predictions := Suc (predictions s)\<rparr>)"
    by (rule transform_invalid_accept [OF assms h1 h2 h3])
  then show "handle w T classify (Some r) context s =
              (Inl (Exc PyException (''Invalid accept: '' @ accept r)),
               s\<lparr>transforms := Suc (transforms s), predictions := Suc (predictions s)\<rparr>)"
    using h by (simp add: handle_def)
qed

lemma sample_input:
  "default_input_fn sample_toolkit (body (sample_request ''text/csv'' ac))
      (content_type (sample_request ''text/csv'' ac)) =
     Inr \<lparr>shape = [1, 4], elems = [51 / 10, 7 / 2, 7 / 5, 1 / 5]\<rparr>"
  by (simp add: default_input_fn_def sample_toolkit_def sample_request_def reshape_one_row_def)

lemma sample_prediction:
  "default_predict_fn sample_classify \<lparr>shape = [1, 4], elems = [51 / 10, 7 / 2, 7 / 5, 1 / 5]\<rparr> 0 =
     Inr [0]"
  by (simp add: default_predict_fn_def predict_def sample_classify_def tolist_def numeral_2_eq_2)

theorem invalid_accept_rejected_witness:
  "handle served_world sample_toolkit sample_classify
     (Some (sample_request ''text/csv'' ''application/json'')) sample_context loaded_service =
     (Inl (Exc PyException ''Invalid accept: application/json''),
      loaded_service\<lparr>transforms := 1, predictions := 1\<rparr>)"
proof -
  have a: "accept (sample_request ''text/csv'' ''application/json'') \<noteq> ''text/csv''"
    by (simp add: sample_request_def)
  have n: "accept (sample_request ''text/csv'' ''application/json'') = ''application/json''"
    by (simp add: sample_request_def)
  have l: "initialized loaded_service" "model loaded_service = Some 0"
    "transforms loaded_service = 0" "predictions loaded_service = 0"
    by (simp_all add: loaded_service_def)
  show ?thesis
    using invalid_accept_rejected [OF a, of sample_toolkit "[0]" loaded_service 0
        "\<lparr>shape = [1, 4], elems = [51 / 10, 7 / 2, 7 / 5, 1 / 5]\<rparr>" sample_classify served_world
        sample_context]
      sample_input [of "''application/json''"] sample_prediction l n
    by simp
qed


lemma predict_one_row:
  assumes "classify m (elems a) = Inr l"
  shows "default_predict_fn classify (reshape_one_row a) m = Inr [l]"
  using assms
  by (simp add: default_predict_fn_def predict_def reshape_one_row_def tolist_def)

text \<open>
  C7: for a feature row encoded as CSV and submitted with content type and accept type
  \<^verbatim>\<open>text/csv\<close>, the handler pipeline decodes the row into one sample (an array of shape
  \<open>[1, n]\<close>), the prediction is the one-element sequence \<open>[l]\<close> of the label the model gives
  that row, and the response is the toolkit's CSV encoding of \<open>[l]\<close>; a decoder that inverts
  the toolkit's encoder on one-element sequences recovers \<open>[l]\<close> from it.
\<close>

theorem csv_round_trip:
  assumes "content_type r = ''text/csv''" and "accept r = ''text/csv''"
    and "model s = Some m"
    and "decode T (body r) ''text/csv'' = Inr a"
    and "classify m (elems a) = Inr l"
    and "encode T [l] ''text/csv'' = Inr out"
    and "\<And>x y. encode T [x] ''text/csv'' = Inr y \<Longrightarrow> csv_decode y = Some [x]"
  shows "default_input_fn T (body r) (content_type r) =
           Inr \<lparr>shape = [1, length (elems a)], elems = elems a\<rparr> \<and>
         default_predict_fn classify \<lparr>shape = [1, length (elems a)], elems = elems a\<rparr> m = Inr [l] \<and>
         transform T classify r s =
           (Inr out, s\<lparr>transforms := Suc (transforms s), predictions := Suc (predictions s)\<rparr>) \<and>
         csv_decode out = Some [l]"
proof -
  have i: "default_input_fn T (body r) (content_type r) = Inr (reshape_one_row a)"
    using assms(1,4) by (simp add: default_input_fn_def)
  have p: "default_predict_fn classify (reshape_one_row a) m = Inr [l]"
    using assms(5) by (rule predict_one_row)
  have t: "transform T classify r s =
           (Inr out, s\<lparr>transforms := Suc (transforms s), predictions := Suc (predictions s)\<rparr>)"
    using assms(2,3,6) by (simp add: transform_def Let_def i p default_output_fn_def)
  have d: "csv_decode out = Some [l]" using assms(6) by (rule assms(7))
  show ?thesis using i p t d by (simp add: reshape_one_row_def)
qed

lemma sample_codec:
  "encode sample_toolkit [x] ''text/csv'' = Inr y \<Longrightarrow> sample_csv_decode y = Some [x]"
  by (auto simp: sample_toolkit_def sample_csv_decode_def split: if_splits)

theorem csv_round_trip_witness:
  "transform sample_toolkit sample_classify (sample_request ''text/csv'' ''text/csv'') loaded_service =
     (Inr (''0.0'' @ [newline]), loaded_service\<lparr>transforms := 1, predictions := 1\<rparr>) \<and>
   sample_csv_decode (''0.0'' @ [newline]) = Some [0]"
proof -
  have c: "content_type (sample_request ''text/csv'' ''text/csv'') = ''text/csv''"
    and a: "accept (sample_request ''text/csv'' ''text/csv'') = ''text/csv''"
    by (simp_all add: sample_request_def)
  have m: "model loaded_service = Some 0" by (simp add: loaded_service_def)
  have d: "decode sample_toolkit (body (sample_request ''text/csv'' ''text/csv'')) ''text/csv'' =
             Inr \<lparr>shape = [4], elems = [51 / 10, 7 / 2, 7 / 5, 1 / 5]\<rparr>"
    by (simp add: sample_toolkit_def sample_request_def)
  have k: "sample_classify 0 (elems \<lparr>shape = [4], elems = [51 / 10, 7 / 2, 7 / 5, 1 / 5 :: rat]\<rparr>) = Inr 0"
    by (simp add: sample_classify_def numeral_2_eq_2)
  have e: "encode sample_toolkit [0] ''text/csv'' = Inr (''0.0'' @ [newline])"
    by (simp add: sample_toolkit_def)
  have l: "transforms loaded_service = 0" "predictions loaded_service = 0"
    by (simp_all add: loaded_service_def)
  show ?thesis
    using csv_round_trip [where classify = sample_classify and csv_decode = sample_csv_decode,
        OF c a m d k e sample_codec] l
    by simp
qed

section \<open>The handler service\<close>

lemma handle_none_initialized:
  "initialized s \<Longrightarrow> handle w T classify None context s = (Inr None, s)"
  by (simp add: handle_def)

lemma handle_none_uninitialized:
  "\<not> initialized s \<Longrightarrow>
     handle w T classify None context s =
       (case default_model_fn w (model_dir context) of
          Inl e \<Rightarrow> (Inl e, s\<lparr>loads := Suc (loads s)\<rparr>)
        | Inr m \<Rightarrow> (Inr None, s\<lparr>initialized := True, model := Some m, loads := Suc (loads s)\<rparr>))"
  by (simp add: handle_def initialize_def split: sum.splits)

text \<open>
  C10: invoked with a \<^verbatim>\<open>None\<close> payload, \<^verbatim>\<open>handle\<close> never invokes the transformer
  and, whenever it returns, returns \<^verbatim>\<open>None\<close>. The initialization guard runs first: an
  initialized service is returned unchanged; an uninitialized one runs the model loader, and is
  initialized with the loaded model when the loader succeeds, while the loader's exception is
  the only other outcome.
\<close>

theorem none_payload_returns_none:
  "transforms (snd (handle w T classify None context s)) = transforms s \<and>
   predictions (snd (handle w T classify None context s)) = predictions s \<and>
   (\<forall>x. fst (handle w T classify None context s) = Inr x \<longrightarrow> x = None) \<and>
   (initialized s \<longrightarrow> handle w T classify None context s = (Inr None, s)) \<and>
   (\<not> initialized s \<longrightarrow> loads (snd (handle w T classify None context s)) = Suc (loads s)) \<and>
   (\<not> initialized s \<and> default_model_fn w (model_dir context) = Inr m \<longrightarrow>
      handle w T classify None context s =
        (Inr None, s\<lparr>initialized := True, model := Some m, loads := Suc (loads s)\<rparr>)) \<and>
   (\<not> initialized s \<and> default_model_fn w (model_dir context) = Inl e \<longrightarrow>
      fst (handle w T classify None context s) = Inl e)"
proof (cases "initialized s")
  case True
  then show ?thesis by (simp add: handle_none_initialized)
next
  case False
  then show ?thesis
    by (cases "default_model_fn w (model_dir context)") (simp_all add: handle_none_uninitialized)
qed

lemma sample_model_loads: "default_model_fn served_world (model_dir sample_context) = Inr 0"
  by (simp add: default_model_fn_def served_world_def sample_context_def path_join_def)

theorem none_payload_returns_none_witness:
  "handle served_world sample_toolkit sample_classify None sample_context new_service =
     (Inr None, loaded_service)"
proof -
  have u: "\<not> initialized (new_service :: nat service)" by (simp add: new_service_def)
  have e: "(new_service :: nat service)\<lparr>initialized := True, model := Some 0,
             loads := Suc (loads (new_service :: nat service))\<rparr> = loaded_service"
    by (simp add: new_service_def loaded_service_def)
  show ?thesis
    using none_payload_returns_none [of served_world sample_toolkit sample_classify sample_context
        new_service 0] u sample_model_loads e
    by simp
qed








end
